theory Spec2Isabelle
  imports Complex_Main
begin

section \<open>Tensor primitives used by the advection step, on real numbers\<close>

text \<open>
  The advection step of \<^verbatim>\<open>src/model/paradis.py\<close> is an elementwise pipeline of torch
  primitives.  The primitives are modelled on mathematical reals (rounding is not modelled):
  \<^verbatim>\<open>torch.clamp\<close>, \<^verbatim>\<open>torch.remainder\<close> (the result has the sign of the divisor),
  \<^verbatim>\<open>torch.atan2\<close> and \<^verbatim>\<open>torch.where\<close>.
\<close>

definition clamp :: "real \<Rightarrow> real \<Rightarrow> real \<Rightarrow> real" where
  "clamp x lo hi = min (max x lo) hi"

definition remainder :: "real \<Rightarrow> real \<Rightarrow> real" where
  "remainder a b = a - b * of_int \<lfloor>a / b\<rfloor>"

definition atan2 :: "real \<Rightarrow> real \<Rightarrow> real" where
  "atan2 y x =
     (if 0 < x then arctan (y / x)
      else if x < 0 then (if 0 \<le> y then arctan (y / x) + pi else arctan (y / x) - pi)
      else if 0 < y then pi / 2
      else if y < 0 then - (pi / 2)
      else 0)"

definition where_t :: "bool \<Rightarrow> 'a \<Rightarrow> 'a \<Rightarrow> 'a" where
  "where_t c a b = (if c then a else b)"

section \<open>The rotated-frame coordinate transform\<close>

text \<open>
  \<^verbatim>\<open>NeuralSemiLagrangian._transform_to_latlon\<close> (lines 34--63), for one tensor element.
\<close>

definition transform_to_latlon :: "real \<Rightarrow> real \<Rightarrow> real \<Rightarrow> real \<Rightarrow> real \<times> real" where
  "transform_to_latlon lat_prime lon_prime lat_p lon_p =
     (let sin_lat_prime = sin lat_prime;
          cos_lat_prime = cos lat_prime;
          sin_lon_prime = sin lon_prime;
          cos_lon_prime = cos lon_prime;
          sin_lat_p = sin lat_p;
          cos_lat_p = cos lat_p;
          sin_lat = sin_lat_prime * cos_lat_p + cos_lat_prime * cos_lon_prime * sin_lat_p;
          lat = arcsin (clamp sin_lat (- 1 + 1 / 10 ^ 7) (1 - 1 / 10 ^ 7));
          num = cos_lat_prime * sin_lon_prime;
          den = cos_lat_prime * cos_lon_prime * cos_lat_p - sin_lat_prime * sin_lat_p;
          lon = lon_p + atan2 num den;
          lon = remainder (lon + 2 * pi) (2 * pi)
      in (lat, lon))"

section \<open>The periodic grid mapping\<close>

text \<open>
  Lines 113--128 of \<^verbatim>\<open>NeuralSemiLagrangian.forward\<close>, for one tensor element.  The extrema
  \<open>min_lat\<close>, \<open>max_lat\<close>, \<open>min_lon\<close>, \<open>max_lon\<close> are the values of \<^verbatim>\<open>torch.min\<close> and
  \<^verbatim>\<open>torch.max\<close> over the grids (lines 103--107).  Each assignment of the source is one
  binding; the two masks \<open>geo_mask_left\<close> and \<open>geo_mask_right\<close> are bound before the first
  shift, as in the source.
\<close>

definition grid_map :: "real \<Rightarrow> real \<Rightarrow> real \<Rightarrow> real \<Rightarrow> real \<Rightarrow> real \<Rightarrow> real \<times> real" where
  "grid_map lat_dep lon_dep min_lat max_lat min_lon max_lon =
     (let grid_x = 2 * (lon_dep - min_lon) / (max_lon - min_lon) - 1;
          grid_y = 2 * (lat_dep - min_lat) / (max_lat - min_lat) - 1;
          grid_x = remainder (grid_x + 1) 2 - 1;
          geo_mask_left = (grid_x \<le> 0);
          geo_mask_right = (grid_x > 0);
          lat_mask_outer = (\<bar>grid_y\<bar> > 1);
          grid_x = where_t (lat_mask_outer \<and> geo_mask_left) (grid_x + 1) grid_x;
          grid_x = where_t (lat_mask_outer \<and> geo_mask_right) (grid_x - 1) grid_x;
          grid_y = where_t (grid_y < - 1) (- (2 + grid_y)) grid_y;
          grid_y = where_t (grid_y > 1) (2 - grid_y) grid_y
      in (grid_x, grid_y))"

text \<open>
  Line 113 on its own: the longitude of a departure point rescaled against the extrema of the
  longitude grid, as it is before the wrap of line 117.
\<close>

definition rescale_grid_x :: "real \<Rightarrow> real \<Rightarrow> real \<Rightarrow> real" where
  "rescale_grid_x lon_dep min_lon max_lon = 2 * (lon_dep - min_lon) / (max_lon - min_lon) - 1"

text \<open>
  The four steps as the specification words them (section 4.2), each a function of its own.
\<close>

definition spec_linear_rescale :: "real \<Rightarrow> real \<Rightarrow> real \<Rightarrow> real" where
  "spec_linear_rescale dep lo hi = 2 * (dep - lo) / (hi - lo) - 1"

definition spec_lon_wrap :: "real \<Rightarrow> real" where
  "spec_lon_wrap gx = remainder (gx + 1) 2 - 1"

definition spec_pole_shift :: "real \<Rightarrow> real \<Rightarrow> real" where
  "spec_pole_shift gx gy =
     (if \<bar>gy\<bar> > 1 then (if gx \<le> 0 then gx + 1 else gx - 1) else gx)"

definition spec_mirror_below :: "real \<Rightarrow> real" where
  "spec_mirror_below gy = (if gy < - 1 then - (2 + gy) else gy)"

definition spec_mirror_above :: "real \<Rightarrow> real" where
  "spec_mirror_above gy = (if gy > 1 then 2 - gy else gy)"

definition spec_lat_mirror :: "real \<Rightarrow> real" where
  "spec_lat_mirror gy = spec_mirror_above (spec_mirror_below gy)"


section \<open>The padded resampler\<close>

text \<open>
  One channel of a feature field is a list of rows (latitude index first, then longitude
  index), as the last two axes of the tensor.
\<close>

type_synonym channel = "real list list"

definition size_H :: "channel \<Rightarrow> nat" where
  "size_H P = length P"

definition size_W :: "channel \<Rightarrow> nat" where
  "size_W P = (case P of [] \<Rightarrow> 0 | r # _ \<Rightarrow> length r)"

text \<open>
  Lines 139--140: the sampling coordinate is multiplied by the unpadded size and divided by
  the padded size of the same axis.
\<close>

definition pad_rescale :: "real \<Rightarrow> nat \<Rightarrow> nat \<Rightarrow> real" where
  "pad_rescale g n n_padded = g * real n / real n_padded"

text \<open>
  \<^verbatim>\<open>torch.nn.functional.grid_sample\<close> with \<^verbatim>\<open>align_corners=True\<close>, \<^verbatim>\<open>mode="bicubic"\<close> and
  \<^verbatim>\<open>padding_mode="border"\<close> (lines 154--160), for one output element: the normalized
  coordinate is mapped to a pixel coordinate by \<open>(x + 1) / 2 * (size - 1)\<close>, the sixteen
  neighbours around its floor are read with their indices clipped into the field, and they
  are combined by the cubic convolution kernel with \<open>A = -0.75\<close>, along x and then along y.
\<close>

definition grid_sampler_unnormalize :: "real \<Rightarrow> nat \<Rightarrow> real" where
  "grid_sampler_unnormalize coord n = ((coord + 1) / 2) * (real n - 1)"

definition clip_coordinates :: "int \<Rightarrow> nat \<Rightarrow> int" where
  "clip_coordinates i n = min (int n - 1) (max i 0)"

definition get_value_bounded :: "channel \<Rightarrow> int \<Rightarrow> int \<Rightarrow> real" where
  "get_value_bounded P x y =
     (let ix = clip_coordinates x (size_W P);
          iy = clip_coordinates y (size_H P)
      in if 0 \<le> iy \<and> iy < int (size_H P) \<and> 0 \<le> ix \<and> ix < int (size_W P)
         then P ! nat iy ! nat ix else 0)"

definition cubic_convolution1 :: "real \<Rightarrow> real \<Rightarrow> real" where
  "cubic_convolution1 x A = ((A + 2) * x - (A + 3)) * x * x + 1"

definition cubic_convolution2 :: "real \<Rightarrow> real \<Rightarrow> real" where
  "cubic_convolution2 x A = ((A * x - 5 * A) * x + 8 * A) * x - 4 * A"

definition cubic_interp1d :: "real \<Rightarrow> real \<Rightarrow> real \<Rightarrow> real \<Rightarrow> real \<Rightarrow> real" where
  "cubic_interp1d x0 x1 x2 x3 t =
     (let A = - (3 / 4);
          c0 = cubic_convolution2 (t + 1) A;
          c1 = cubic_convolution1 t A;
          c2 = cubic_convolution1 (1 - t) A;
          c3 = cubic_convolution2 (2 - t) A
      in x0 * c0 + x1 * c1 + x2 * c2 + x3 * c3)"

definition grid_sample_bicubic :: "channel \<Rightarrow> real \<Rightarrow> real \<Rightarrow> real" where
  "grid_sample_bicubic P x y =
     (let ix = grid_sampler_unnormalize x (size_W P);
          iy = grid_sampler_unnormalize y (size_H P);
          ix_nw = \<lfloor>ix\<rfloor>;
          iy_nw = \<lfloor>iy\<rfloor>;
          tx = ix - of_int ix_nw;
          ty = iy - of_int iy_nw;
          row = (\<lambda>i. cubic_interp1d
                  (get_value_bounded P (ix_nw - 1) (iy_nw - 1 + i))
                  (get_value_bounded P ix_nw (iy_nw - 1 + i))
                  (get_value_bounded P (ix_nw + 1) (iy_nw - 1 + i))
                  (get_value_bounded P (ix_nw + 2) (iy_nw - 1 + i))
                  tx)
      in cubic_interp1d (row 0) (row 1) (row 2) (row 3) ty)"

section \<open>One element of the advection step\<close>

text \<open>
  Lines 94--160 of \<^verbatim>\<open>NeuralSemiLagrangian.forward\<close> for one output element (one batch entry,
  one channel, one grid cell): \<open>lat_p\<close>, \<open>lon_p\<close>, \<open>u\<close> and \<open>v\<close> are the grid coordinates and
  the predicted velocity at the cell, \<open>feat_H\<close> and \<open>feat_W\<close> the last two sizes of
  \<^verbatim>\<open>hidden_features\<close>, and \<open>padded\<close> the cell's channel of \<^verbatim>\<open>dynamic_padded\<close>.  On real
  numbers this describes the source for extrema with \<open>min_lat \<noteq> max_lat\<close> and
  \<open>min_lon \<noteq> max_lon\<close>; the whole step, which also covers equal extrema, is
  \<open>advect_channel\<close> below.
\<close>

definition advect_coords ::
  "nat \<Rightarrow> nat \<Rightarrow> nat \<Rightarrow> nat \<Rightarrow> real \<Rightarrow> real \<Rightarrow> real \<Rightarrow> real \<Rightarrow> real \<Rightarrow> real \<Rightarrow> real \<Rightarrow> real \<Rightarrow> real
     \<Rightarrow> real \<times> real" where
  "advect_coords feat_H feat_W pad_H pad_W lat_p lon_p u v dt min_lat max_lat min_lon max_lon =
     (let lon_prime = - u * dt;
          lat_prime = - v * dt;
          (lat_dep, lon_dep) = transform_to_latlon lat_prime lon_prime lat_p lon_p;
          (grid_x, grid_y) = grid_map lat_dep lon_dep min_lat max_lat min_lon max_lon;
          grid_x = pad_rescale grid_x feat_W pad_W;
          grid_y = pad_rescale grid_y feat_H pad_H
      in (grid_x, grid_y))"

definition advect_cell ::
  "channel \<Rightarrow> nat \<Rightarrow> nat \<Rightarrow> real \<Rightarrow> real \<Rightarrow> real \<Rightarrow> real \<Rightarrow> real \<Rightarrow> real \<Rightarrow> real \<Rightarrow> real \<Rightarrow> real
     \<Rightarrow> real" where
  "advect_cell padded feat_H feat_W lat_p lon_p u v dt min_lat max_lat min_lon max_lon =
     (let (grid_x, grid_y) =
            advect_coords feat_H feat_W (size_H padded) (size_W padded)
              lat_p lon_p u v dt min_lat max_lat min_lon max_lon
      in grid_sample_bicubic padded grid_x grid_y)"

text \<open>
  The extrema of a grid, as \<^verbatim>\<open>torch.min\<close> and \<^verbatim>\<open>torch.max\<close> return them for a grid with
  at least one element (lines 103--107).
\<close>

definition grid_min :: "channel \<Rightarrow> real" where
  "grid_min g = Min (set (concat g))"

definition grid_max :: "channel \<Rightarrow> real" where
  "grid_max g = Max (set (concat g))"

text \<open>
  Modelled from the spec: \<^verbatim>\<open>GeoCyclicPadding\<close> (\<^verbatim>\<open>model/padding.py\<close> is not among the
  sources).  The specification gives its interface, \<open>pad(features[B,C,H,W], halo)\<close> of shape
  \<open>[B,C,H+2 halo,W+2 halo]\<close>, "periodic in the longitude axis, pole-consistent in the
  latitude axis".  For the halo of 1 that the advection step uses: every row is extended by
  its last element on the left and its first element on the right; the halo row beyond each
  pole is the row next to that pole shifted by half the longitudes.
\<close>

definition wrap_row :: "real list \<Rightarrow> real list" where
  "wrap_row r = last r # r @ [hd r]"

definition pole_row :: "real list \<Rightarrow> real list" where
  "pole_row r = rotate (length r div 2) r"

definition GeoCyclicPadding :: "channel \<Rightarrow> channel" where
  "GeoCyclicPadding x = map wrap_row (pole_row (hd x) # x @ [pole_row (last x)])"

text \<open>A field with the same value in every cell.\<close>

definition uniform :: "nat \<Rightarrow> nat \<Rightarrow> real \<Rightarrow> channel" where
  "uniform H W c = replicate H (replicate W c)"


section \<open>Example grids and fields\<close>

text \<open>
  A regular grid of three latitudes and eight longitudes (radians), the regular grid of four
  latitudes and eight longitudes of the specification's end-to-end scenario, a field whose
  value is its longitude index, and a grid with every longitude shifted by \<open>2\<pi>\<close>.
\<close>

definition ramp_3x8 :: channel where
  "ramp_3x8 = [[0, 1, 2, 3, 4, 5, 6, 7], [0, 1, 2, 3, 4, 5, 6, 7], [0, 1, 2, 3, 4, 5, 6, 7]]"

definition lat_3x8 :: channel where
  "lat_3x8 = [replicate 8 (- (pi / 4)), replicate 8 0, replicate 8 (pi / 4)]"

definition lon_row_8 :: "real list" where
  "lon_row_8 = [0, pi / 4, 2 * pi / 4, 3 * pi / 4, 4 * pi / 4, 5 * pi / 4, 6 * pi / 4, 7 * pi / 4]"

definition lon_3x8 :: channel where
  "lon_3x8 = [lon_row_8, lon_row_8, lon_row_8]"

definition shift_lon :: "channel \<Rightarrow> channel" where
  "shift_lon g = map (map (\<lambda>lon. lon + 2 * pi)) g"

definition lat_4x8 :: channel where
  "lat_4x8 = [replicate 8 (- (3 * pi / 8)), replicate 8 (- (pi / 8)), replicate 8 (pi / 8),
              replicate 8 (3 * pi / 8)]"

definition lon_4x8 :: channel where
  "lon_4x8 = [lon_row_8, lon_row_8, lon_row_8, lon_row_8]"

section \<open>Tensors, views and the velocity split\<close>

text \<open>
  Errors are values: the exceptions a call can raise.
\<close>

datatype error = RuntimeError | IndexError | TypeError | ZeroDivisionError

text \<open>
  A tensor is its shape and its elements in row-major (contiguous) order.  \<^verbatim>\<open>Tensor.view\<close>
  keeps the elements and replaces the shape; it raises when the new shape has another number
  of elements.
\<close>

record tensor =
  shape :: "nat list"
  data :: "real list"

definition valid :: "tensor \<Rightarrow> bool" where
  "valid t = (length (data t) = prod_list (shape t))"

fun offset :: "nat list \<Rightarrow> nat list \<Rightarrow> nat" where
  "offset (n # sh) (i # idx) = i * prod_list sh + offset sh idx"
| "offset sh idx = 0"

definition get :: "tensor \<Rightarrow> nat list \<Rightarrow> real" where
  "get t idx = data t ! offset (shape t) idx"

definition view :: "tensor \<Rightarrow> nat list \<Rightarrow> error + tensor" where
  "view t sh = (if prod_list sh = length (data t) then Inr (t\<lparr>shape := sh\<rparr>) else Inl RuntimeError)"

text \<open>
  \<^verbatim>\<open>t[:, k]\<close> for \<open>0 \<le> k\<close>: the index \<open>k\<close> along the second axis, for every index along the first.
\<close>

definition select1 :: "tensor \<Rightarrow> nat \<Rightarrow> error + tensor" where
  "select1 t k =
     (case shape t of
        b # n # rest \<Rightarrow>
          if k < n then
            (let inner = prod_list rest
             in Inr \<lparr>shape = b # rest,
                     data = map (\<lambda>p. data t ! ((p div inner) * (n * inner) + k * inner + p mod inner))
                              [0..<b * inner]\<rparr>)
          else Inl IndexError
      | _ \<Rightarrow> Inl IndexError)"

text \<open>
  The constructor arguments of the velocity predictor (lines 29--32).  The classes \<^verbatim>\<open>CLP\<close> and
  \<^verbatim>\<open>VariationalCLP\<close> are not among the sources; of each only the arguments it is built with
  are modelled.
\<close>

record clp_args =
  in_channels :: nat
  out_channels :: nat
  mesh_size :: "nat \<times> nat"

datatype velocity_predictor = CLP clp_args | VariationalCLP clp_args

fun predictor_args :: "velocity_predictor \<Rightarrow> clp_args" where
  "predictor_args (CLP a) = a"
| "predictor_args (VariationalCLP a) = a"

record semi_lagrangian =
  padding :: nat
  hidden_dim :: nat
  variational :: bool
  velocity_net :: velocity_predictor

definition NeuralSemiLagrangian_init :: "nat \<Rightarrow> nat \<times> nat \<Rightarrow> bool \<Rightarrow> semi_lagrangian" where
  "NeuralSemiLagrangian_init hdim mesh var =
     \<lparr>padding = 1, hidden_dim = hdim, variational = var,
      velocity_net =
        (if \<not> var then CLP \<lparr>in_channels = hdim, out_channels = 2 * hdim, mesh_size = mesh\<rparr>
         else VariationalCLP \<lparr>in_channels = hdim, out_channels = 2 * hdim, mesh_size = mesh\<rparr>)\<rparr>"

text \<open>
  Lines 84--90: the predicted velocities are viewed as \<open>[batch, 2, hidden_dim, lat, lon]\<close> and
  \<open>u\<close>, \<open>v\<close> are the indices 0 and 1 of the second axis.
\<close>

definition split_uv :: "semi_lagrangian \<Rightarrow> nat \<Rightarrow> tensor \<Rightarrow> error + tensor \<times> tensor" where
  "split_uv self batch_size velocities =
     (case view velocities
             ([batch_size, 2, hidden_dim self]
               @ drop (length (shape velocities) - 2) (shape velocities)) of
        Inl e \<Rightarrow> Inl e
      | Inr velocities \<Rightarrow>
          (case select1 velocities 0 of
             Inl e \<Rightarrow> Inl e
           | Inr u \<Rightarrow>
               (case select1 velocities 1 of
                  Inl e \<Rightarrow> Inl e
                | Inr v \<Rightarrow> Inr (u, v))))"

section \<open>Division by zero: tensor values with infinities and NaN\<close>

text \<open>
  On real numbers the quotient by a zero difference of extrema has no meaning, so the grid
  mapping above describes the source only for \<open>min < max\<close>.  torch divides floating tensors
  by the IEEE rules: no exception is raised, a non-zero value divided by zero is an infinity
  and zero divided by zero is NaN.  To follow a degenerate grid through lines 102--140 the
  tensor elements are modelled as a real number, one of the two infinities or NaN (rounding
  and the sign of zero are not modelled), with the arithmetic and comparisons of the
  primitives these lines use.
\<close>

datatype tfloat = Fin real | PInf | NInf | NaN

fun t_neg :: "tfloat \<Rightarrow> tfloat" where
  "t_neg (Fin a) = Fin (- a)"
| "t_neg PInf = NInf"
| "t_neg NInf = PInf"
| "t_neg NaN = NaN"

fun t_add :: "tfloat \<Rightarrow> tfloat \<Rightarrow> tfloat" where
  "t_add NaN y = NaN"
| "t_add x NaN = NaN"
| "t_add (Fin a) (Fin b) = Fin (a + b)"
| "t_add PInf NInf = NaN"
| "t_add NInf PInf = NaN"
| "t_add PInf y = PInf"
| "t_add x PInf = PInf"
| "t_add NInf y = NInf"
| "t_add x NInf = NInf"

definition t_sub :: "tfloat \<Rightarrow> tfloat \<Rightarrow> tfloat" where
  "t_sub x y = t_add x (t_neg y)"

fun t_positive :: "tfloat \<Rightarrow> bool" where
  "t_positive (Fin a) = (0 < a)"
| "t_positive PInf = True"
| "t_positive NInf = False"
| "t_positive NaN = False"

fun t_mul :: "tfloat \<Rightarrow> tfloat \<Rightarrow> tfloat" where
  "t_mul NaN y = NaN"
| "t_mul x NaN = NaN"
| "t_mul (Fin a) (Fin b) = Fin (a * b)"
| "t_mul x y =
     (if x = Fin 0 \<or> y = Fin 0 then NaN
      else if t_positive x = t_positive y then PInf else NInf)"

fun t_div :: "tfloat \<Rightarrow> tfloat \<Rightarrow> tfloat" where
  "t_div NaN y = NaN"
| "t_div x NaN = NaN"
| "t_div (Fin a) (Fin b) =
     (if b \<noteq> 0 then Fin (a / b) else if 0 < a then PInf else if a < 0 then NInf else NaN)"
| "t_div (Fin a) y = Fin 0"
| "t_div x (Fin b) = (if t_positive x = (0 \<le> b) then PInf else NInf)"
| "t_div x y = NaN"

fun t_remainder :: "tfloat \<Rightarrow> real \<Rightarrow> tfloat" where
  "t_remainder (Fin a) b = (if b = 0 then NaN else Fin (remainder a b))"
| "t_remainder x b = NaN"

fun t_abs :: "tfloat \<Rightarrow> tfloat" where
  "t_abs (Fin a) = Fin \<bar>a\<bar>"
| "t_abs PInf = PInf"
| "t_abs NInf = PInf"
| "t_abs NaN = NaN"

fun t_less :: "tfloat \<Rightarrow> tfloat \<Rightarrow> bool" where
  "t_less NaN y = False"
| "t_less x NaN = False"
| "t_less (Fin a) (Fin b) = (a < b)"
| "t_less x NInf = False"
| "t_less PInf y = False"
| "t_less x y = True"

fun t_le :: "tfloat \<Rightarrow> tfloat \<Rightarrow> bool" where
  "t_le NaN y = False"
| "t_le x NaN = False"
| "t_le x y = (x = y \<or> t_less x y)"

fun is_finite :: "tfloat \<Rightarrow> bool" where
  "is_finite (Fin a) = True"
| "is_finite x = False"

text \<open>Lines 113--128 on these values, assignment by assignment.\<close>

definition grid_map_t ::
  "tfloat \<Rightarrow> tfloat \<Rightarrow> tfloat \<Rightarrow> tfloat \<Rightarrow> tfloat \<Rightarrow> tfloat \<Rightarrow> tfloat \<times> tfloat" where
  "grid_map_t lat_dep lon_dep min_lat max_lat min_lon max_lon =
     (let grid_x = t_sub (t_div (t_mul (Fin 2) (t_sub lon_dep min_lon)) (t_sub max_lon min_lon)) (Fin 1);
          grid_y = t_sub (t_div (t_mul (Fin 2) (t_sub lat_dep min_lat)) (t_sub max_lat min_lat)) (Fin 1);
          grid_x = t_sub (t_remainder (t_add grid_x (Fin 1)) 2) (Fin 1);
          geo_mask_left = t_le grid_x (Fin 0);
          geo_mask_right = t_less (Fin 0) grid_x;
          lat_mask_outer = t_less (Fin 1) (t_abs grid_y);
          grid_x = where_t (lat_mask_outer \<and> geo_mask_left) (t_add grid_x (Fin 1)) grid_x;
          grid_x = where_t (lat_mask_outer \<and> geo_mask_right) (t_sub grid_x (Fin 1)) grid_x;
          grid_y = where_t (t_less grid_y (Fin (- 1))) (t_neg (t_add (Fin 2) grid_y)) grid_y;
          grid_y = where_t (t_less (Fin 1) grid_y) (t_sub (Fin 2) grid_y) grid_y
      in (grid_x, grid_y))"

text \<open>Lines 139--140 on these values.\<close>

definition pad_rescale_t :: "tfloat \<Rightarrow> nat \<Rightarrow> nat \<Rightarrow> tfloat" where
  "pad_rescale_t g n n_padded = t_div (t_mul g (Fin (real n))) (Fin (real n_padded))"

text \<open>
  Lines 94--140 for one channel of one batch entry, with the failure of \<^verbatim>\<open>torch.min\<close> and
  \<^verbatim>\<open>torch.max\<close> on a grid without elements as the error they raise.  The result is the
  pair of coordinates handed to the sampler for every cell.
\<close>

definition torch_min :: "channel \<Rightarrow> error + real" where
  "torch_min g = (if concat g = [] then Inl RuntimeError else Inr (Min (set (concat g))))"

definition torch_max :: "channel \<Rightarrow> error + real" where
  "torch_max g = (if concat g = [] then Inl RuntimeError else Inr (Max (set (concat g))))"

definition advect_coords_t ::
  "nat \<Rightarrow> nat \<Rightarrow> nat \<Rightarrow> nat \<Rightarrow> real \<Rightarrow> real \<Rightarrow> real \<Rightarrow> real \<Rightarrow> real \<Rightarrow> real \<Rightarrow> real \<Rightarrow> real \<Rightarrow> real
     \<Rightarrow> tfloat \<times> tfloat" where
  "advect_coords_t feat_H feat_W pad_H pad_W lat_p lon_p u v dt min_lat max_lat min_lon max_lon =
     (let lon_prime = - u * dt;
          lat_prime = - v * dt;
          (lat_dep, lon_dep) = transform_to_latlon lat_prime lon_prime lat_p lon_p;
          (grid_x, grid_y) =
             grid_map_t (Fin lat_dep) (Fin lon_dep) (Fin min_lat) (Fin max_lat) (Fin min_lon) (Fin max_lon);
          grid_x = pad_rescale_t grid_x feat_W pad_W;
          grid_y = pad_rescale_t grid_y feat_H pad_H
      in (grid_x, grid_y))"

definition sampling_grid_t ::
  "channel \<Rightarrow> channel \<Rightarrow> channel \<Rightarrow> channel \<Rightarrow> channel \<Rightarrow> channel \<Rightarrow> real
     \<Rightarrow> error + (tfloat \<times> tfloat) list list" where
  "sampling_grid_t features padded lat_grid lon_grid u v dt =
     (case torch_min lat_grid of Inl e \<Rightarrow> Inl e | Inr min_lat \<Rightarrow>
      case torch_max lat_grid of Inl e \<Rightarrow> Inl e | Inr max_lat \<Rightarrow>
      case torch_min lon_grid of Inl e \<Rightarrow> Inl e | Inr min_lon \<Rightarrow>
      case torch_max lon_grid of Inl e \<Rightarrow> Inl e | Inr max_lon \<Rightarrow>
        Inr (map (\<lambda>i. map (\<lambda>j.
               advect_coords_t (size_H features) (size_W features) (size_H padded) (size_W padded)
                 (lat_grid ! i ! j) (lon_grid ! i ! j) (u ! i ! j) (v ! i ! j) dt
                 min_lat max_lat min_lon max_lon)
             [0..<size_W features])
          [0..<size_H features]))"

text \<open>
  The whole step for one channel of a batch of one entry (over a larger batch the extrema
  are those of all its grids together): the sampling coordinates of every cell, then
  \<^verbatim>\<open>grid_sample\<close> at each of them.  The grids and the velocities have the shape of the
  features, and the lists of a channel are the rows of a tensor, all of one length.  Where
  both coordinates are finite the value is the bicubic sample.  Where a coordinate is an
  infinity or NaN the result is \<open>None\<close>: what \<^verbatim>\<open>grid_sample\<close> computes there is the library's
  and is not modelled.  Rounding is not modelled either: where the rescaled longitude of line
  113 is within rounding of an odd integer, the wrap of line 117 may put the source on the
  other side of its jump than exact arithmetic does.
\<close>

definition sample_t :: "channel \<Rightarrow> tfloat \<times> tfloat \<Rightarrow> real option" where
  "sample_t padded c =
     (case c of
        (Fin x, Fin y) \<Rightarrow> Some (grid_sample_bicubic padded x y)
      | _ \<Rightarrow> None)"

definition advect_channel ::
  "channel \<Rightarrow> channel \<Rightarrow> channel \<Rightarrow> channel \<Rightarrow> channel \<Rightarrow> channel \<Rightarrow> real
     \<Rightarrow> error + real option list list" where
  "advect_channel features padded lat_grid lon_grid u v dt =
     (case sampling_grid_t features padded lat_grid lon_grid u v dt of
        Inl e \<Rightarrow> Inl e
      | Inr grid \<Rightarrow> Inr (map (map (sample_t padded)) grid))"

text \<open>The value of one cell of the result (\<open>None\<close> also when the step raised).\<close>

definition output_at :: "error + real option list list \<Rightarrow> nat \<Rightarrow> nat \<Rightarrow> real option" where
  "output_at r i j = (case r of Inl e \<Rightarrow> None | Inr out \<Rightarrow> out ! i ! j)"

section \<open>The outer model\<close>

text \<open>
  Python values as \<^verbatim>\<open>Paradis.forward\<close> handles them: a tensor or a tuple.
\<close>

datatype pyval = PyTensor tensor | PyTuple "pyval list"

definition bind :: "error + 'a \<Rightarrow> ('a \<Rightarrow> error + 'b) \<Rightarrow> error + 'b" where
  "bind r f = (case r of Inl e \<Rightarrow> Inl e | Inr a \<Rightarrow> f a)"

text \<open>
  Slices and indices along the second axis.  \<^verbatim>\<open>x[:, n:]\<close> and \<^verbatim>\<open>x[:, :n]\<close> clip \<open>n\<close> to the
  size of the axis; \<^verbatim>\<open>x[:, k, :, :]\<close> takes a Python index (a negative one counts from the
  end) and raises IndexError out of range or on a tensor of fewer than four axes.
\<close>

definition narrow1 :: "tensor \<Rightarrow> nat \<Rightarrow> nat \<Rightarrow> error + tensor" where
  "narrow1 t start len =
     (case shape t of
        b # n # rest \<Rightarrow>
          (let inner = prod_list rest
           in Inr \<lparr>shape = b # len # rest,
                   data = map (\<lambda>p. data t ! ((p div (len * inner)) * (n * inner) + start * inner
                                           + p mod (len * inner)))
                            [0..<b * (len * inner)]\<rparr>)
      | _ \<Rightarrow> Inl IndexError)"

definition slice_from1 :: "tensor \<Rightarrow> nat \<Rightarrow> error + tensor" where
  "slice_from1 t n =
     (case shape t of
        b # c # rest \<Rightarrow> narrow1 t (min n c) (c - min n c)
      | _ \<Rightarrow> Inl IndexError)"

definition slice_to1 :: "tensor \<Rightarrow> nat \<Rightarrow> error + tensor" where
  "slice_to1 t n =
     (case shape t of
        b # c # rest \<Rightarrow> narrow1 t 0 (min n c)
      | _ \<Rightarrow> Inl IndexError)"

definition select_channel :: "tensor \<Rightarrow> int \<Rightarrow> error + tensor" where
  "select_channel t k =
     (case shape t of
        b # c # rest \<Rightarrow>
          (let idx = (if k < 0 then int c + k else k)
           in if 2 \<le> length rest \<and> 0 \<le> idx \<and> idx < int c then select1 t (nat idx)
              else Inl IndexError)
      | _ \<Rightarrow> Inl IndexError)"

text \<open>
  The collaborators of the outer model that are not among the sources (the \<^verbatim>\<open>CLP\<close> layers,
  the output projection), torch's tensor arithmetic, and lines 73--165 of the advection step
  (which return the interpolated features and \<open>kl_loss\<close>) enter as parameters.  A layer
  applied to a Python value may raise.
\<close>

record collaborators =
  input_proj :: "tensor \<Rightarrow> error + tensor"
  advection_body :: "tensor \<Rightarrow> tensor \<Rightarrow> tensor \<Rightarrow> real \<Rightarrow> error + tensor \<times> tensor"
  diffusion_reaction :: "pyval \<Rightarrow> error + pyval"
  output_proj :: "tensor \<Rightarrow> error + tensor"
  tensor_add :: "tensor \<Rightarrow> tensor \<Rightarrow> error + tensor"
  tensor_sub :: "tensor \<Rightarrow> tensor \<Rightarrow> error + tensor"
  tensor_scale :: "real \<Rightarrow> tensor \<Rightarrow> tensor"

text \<open>
  Lines 167--170: what \<^verbatim>\<open>NeuralSemiLagrangian.forward\<close> returns.
\<close>

definition NeuralSemiLagrangian_forward ::
  "collaborators \<Rightarrow> semi_lagrangian \<Rightarrow> tensor \<Rightarrow> tensor \<Rightarrow> tensor \<Rightarrow> real \<Rightarrow> error + pyval" where
  "NeuralSemiLagrangian_forward env self hidden_features lat_grid lon_grid dt =
     bind (advection_body env hidden_features lat_grid lon_grid dt)
       (\<lambda>(interpolated, kl_loss).
          if variational self then Inr (PyTuple [PyTensor interpolated, PyTensor kl_loss])
          else Inr (PyTensor interpolated))"

text \<open>
  Python's operators on these values: a float times a tensor is the scaled tensor and a float
  times a tuple is a TypeError; the sum of two tensors is torch's, the sum of two tuples
  their concatenation, and the sum of a tuple and a tensor a TypeError; \<^verbatim>\<open>z += r\<close> on a tensor
  \<open>z\<close> is torch's in-place sum for a tensor \<open>r\<close> and a TypeError for a tuple.
\<close>

fun py_float_mul :: "collaborators \<Rightarrow> real \<Rightarrow> pyval \<Rightarrow> error + pyval" where
  "py_float_mul env a (PyTensor t) = Inr (PyTensor (tensor_scale env a t))"
| "py_float_mul env a (PyTuple vs) = Inl TypeError"

fun py_add :: "collaborators \<Rightarrow> pyval \<Rightarrow> pyval \<Rightarrow> error + pyval" where
  "py_add env (PyTensor a) (PyTensor b) = bind (tensor_add env a b) (\<lambda>t. Inr (PyTensor t))"
| "py_add env (PyTuple a) (PyTuple b) = Inr (PyTuple (a @ b))"
| "py_add env (PyTuple a) (PyTensor b) = Inl TypeError"
| "py_add env (PyTensor a) (PyTuple b) = Inl TypeError"

fun py_iadd :: "collaborators \<Rightarrow> tensor \<Rightarrow> pyval \<Rightarrow> error + tensor" where
  "py_iadd env z (PyTensor r) = tensor_add env z r"
| "py_iadd env z (PyTuple vs) = Inl TypeError"

text \<open>
  \<^verbatim>\<open>Paradis.__init__\<close> (lines 179--217), as far as \<^verbatim>\<open>forward\<close> reads what it sets: the
  configuration values, the channel counts and the time step.  The division by
  \<open>num_substeps\<close> is Python's, which raises for zero.
\<close>

record config =
  num_out_features :: nat
  lat_size :: nat
  lon_size :: nat
  cfg_num_common_features :: nat
  ensemble_enable :: bool
  n_dyn_input_features :: nat
  n_forcings :: nat
  n_constants :: nat
  num_in_features :: nat
  hidden_multiplier :: nat
  cfg_num_substeps :: int
  base_dt :: real

record paradis =
  num_common_features :: nat
  model_variational :: bool
  num_dynamic_channels :: nat
  num_static_channels :: nat
  num_input_channels :: nat
  num_substeps :: int
  model_dt :: real
  advection :: semi_lagrangian

definition SYNOPTIC_TIME_SCALE :: real where
  "SYNOPTIC_TIME_SCALE = 729212"

definition Paradis_init :: "config \<Rightarrow> error + paradis" where
  "Paradis_init cfg =
     (let var = ensemble_enable cfg;
          n_dynamic = n_dyn_input_features cfg + n_forcings cfg;
          hdim = hidden_multiplier cfg * n_dynamic
      in if cfg_num_substeps cfg = 0 then Inl ZeroDivisionError
         else Inr \<lparr>num_common_features = cfg_num_common_features cfg,
                   model_variational = var,
                   num_dynamic_channels = n_dynamic,
                   num_static_channels = n_constants cfg,
                   num_input_channels = num_in_features cfg,
                   num_substeps = cfg_num_substeps cfg,
                   model_dt = base_dt cfg / SYNOPTIC_TIME_SCALE / real_of_int (cfg_num_substeps cfg),
                   advection = NeuralSemiLagrangian_init hdim (lat_size cfg, lon_size cfg) var\<rparr>)"

text \<open>
  \<^verbatim>\<open>Paradis.forward\<close> (lines 219--244).  Lines 222--224 extract the grids; the body of the
  loop (lines 235--241) is one sub-step; \<^verbatim>\<open>range(num_substeps)\<close> runs it
  \<open>max 0 num_substeps\<close> times.
\<close>

definition Paradis_grids :: "paradis \<Rightarrow> tensor \<Rightarrow> error + tensor \<times> tensor" where
  "Paradis_grids self x =
     bind (slice_from1 x (num_dynamic_channels self)) (\<lambda>x_static.
     bind (select_channel x_static (- 2)) (\<lambda>lat_grid.
     bind (select_channel x_static (- 1)) (\<lambda>lon_grid.
     Inr (lat_grid, lon_grid))))"

definition Paradis_substep ::
  "collaborators \<Rightarrow> paradis \<Rightarrow> tensor \<Rightarrow> tensor \<Rightarrow> tensor \<Rightarrow> error + tensor" where
  "Paradis_substep env self lat_grid lon_grid z =
     bind (NeuralSemiLagrangian_forward env (advection self) z lat_grid lon_grid (model_dt self)) (\<lambda>z_adv.
     bind (diffusion_reaction env z_adv) (\<lambda>dz.
     bind (py_float_mul env (model_dt self) dz) (\<lambda>scaled.
     bind (py_add env z_adv scaled) (\<lambda>update.
     py_iadd env z update))))"

fun Paradis_substeps ::
  "collaborators \<Rightarrow> paradis \<Rightarrow> tensor \<Rightarrow> tensor \<Rightarrow> nat \<Rightarrow> tensor \<Rightarrow> error + tensor" where
  "Paradis_substeps env self lat_grid lon_grid 0 z = Inr z"
| "Paradis_substeps env self lat_grid lon_grid (Suc n) z =
     bind (Paradis_substep env self lat_grid lon_grid z)
       (\<lambda>z. Paradis_substeps env self lat_grid lon_grid n z)"

definition Paradis_forward :: "collaborators \<Rightarrow> paradis \<Rightarrow> tensor \<Rightarrow> error + tensor" where
  "Paradis_forward env self x =
     bind (Paradis_grids self x) (\<lambda>(lat_grid, lon_grid).
     bind (input_proj env x) (\<lambda>z.
     bind (Paradis_substeps env self lat_grid lon_grid (nat (num_substeps self)) z) (\<lambda>z'.
     bind (tensor_sub env z' z) (\<lambda>d.
     bind (output_proj env d) (\<lambda>out.
     bind (slice_to1 x (num_common_features self)) (\<lambda>x_common.
     tensor_add env x_common out))))))"

text \<open>
  Collaborators for examples: layers that return their input (the output projection keeps
  the first channel), an advection body that returns the features and a zero loss, and
  elementwise arithmetic on tensors of one shape.
\<close>

definition same_shape_op :: "(real \<Rightarrow> real \<Rightarrow> real) \<Rightarrow> tensor \<Rightarrow> tensor \<Rightarrow> error + tensor" where
  "same_shape_op f a b =
     (if shape a = shape b then Inr \<lparr>shape = shape a, data = map2 f (data a) (data b)\<rparr>
      else Inl RuntimeError)"

definition example_env :: collaborators where
  "example_env =
     \<lparr>input_proj = Inr,
      advection_body = (\<lambda>z lat_grid lon_grid dt. Inr (z, \<lparr>shape = [], data = [0]\<rparr>)),
      diffusion_reaction = Inr,
      output_proj = (\<lambda>t. slice_to1 t 1),
      tensor_add = same_shape_op (+),
      tensor_sub = same_shape_op (-),
      tensor_scale = (\<lambda>a t. t\<lparr>data := map ((*) a) (data t)\<rparr>)\<rparr>"

definition example_cfg :: "bool \<Rightarrow> config" where
  "example_cfg var =
     \<lparr>num_out_features = 1, lat_size = 1, lon_size = 2, cfg_num_common_features = 1,
      ensemble_enable = var, n_dyn_input_features = 1, n_forcings = 0, n_constants = 2,
      num_in_features = 3, hidden_multiplier = 1, cfg_num_substeps = 1, base_dt = 364606\<rparr>"

definition example_model :: "bool \<Rightarrow> paradis" where
  "example_model var =
     \<lparr>num_common_features = 1, model_variational = var, num_dynamic_channels = 1,
      num_static_channels = 2, num_input_channels = 3, num_substeps = 1, model_dt = 1 / 2,
      advection = NeuralSemiLagrangian_init 1 (1, 2) var\<rparr>"

definition example_input :: tensor where
  "example_input = \<lparr>shape = [1, 3, 1, 2], data = [1, 2, 10, 20, 30, 40]\<rparr>"

section \<open>Properties of the coordinate transform\<close>

lemma clamp_bounds: "lo \<le> hi \<Longrightarrow> lo \<le> clamp x lo hi \<and> clamp x lo hi \<le> hi"
  by (simp add: clamp_def)

lemma remainder_range:
  assumes "0 < b"
  shows "0 \<le> remainder a b" and "remainder a b < b"
proof -
  have "b * of_int \<lfloor>a / b\<rfloor> \<le> b * (a / b)"
    using assms by (intro mult_left_mono) simp_all
  then have "b * of_int \<lfloor>a / b\<rfloor> \<le> a" using assms by simp
  then show "0 \<le> remainder a b" by (simp add: remainder_def)
  have "a / b < of_int \<lfloor>a / b\<rfloor> + 1" by linarith
  then have "b * (a / b) < b * (of_int \<lfloor>a / b\<rfloor> + 1)"
    using assms by (intro mult_strict_left_mono) simp_all
  then have "a < b * of_int \<lfloor>a / b\<rfloor> + b" using assms by (simp add: algebra_simps)
  then show "remainder a b < b" by (simp add: remainder_def)
qed

text \<open>
  C6.  For all real arrival coordinates and rotated-frame displacements the transform returns
  a pair (it has no failing branch); the argument handed to arcsin is the sine clamped into
  \<open>[-1 + 1e-7, 1 - 1e-7]\<close>, the returned latitude lies strictly between \<open>-\<pi>/2\<close> and
  \<open>\<pi>/2\<close>, and the returned longitude lies in \<open>[0, 2\<pi>)\<close>.
\<close>

theorem transform_to_latlon_total:
  "fst (transform_to_latlon lat_prime lon_prime lat_p lon_p) =
     arcsin (clamp (sin lat_prime * cos lat_p + cos lat_prime * cos lon_prime * sin lat_p)
               (- 1 + 1 / 10 ^ 7) (1 - 1 / 10 ^ 7))
   \<and> - 1 + 1 / 10 ^ 7 \<le>
       clamp (sin lat_prime * cos lat_p + cos lat_prime * cos lon_prime * sin lat_p)
         (- 1 + 1 / 10 ^ 7) (1 - 1 / 10 ^ 7)
   \<and> clamp (sin lat_prime * cos lat_p + cos lat_prime * cos lon_prime * sin lat_p)
         (- 1 + 1 / 10 ^ 7) (1 - 1 / 10 ^ 7) \<le> 1 - 1 / 10 ^ 7
   \<and> - (pi / 2) < fst (transform_to_latlon lat_prime lon_prime lat_p lon_p)
   \<and> fst (transform_to_latlon lat_prime lon_prime lat_p lon_p) < pi / 2
   \<and> 0 \<le> snd (transform_to_latlon lat_prime lon_prime lat_p lon_p)
   \<and> snd (transform_to_latlon lat_prime lon_prime lat_p lon_p) < 2 * pi"
proof -
  define c where "c = clamp (sin lat_prime * cos lat_p + cos lat_prime * cos lon_prime * sin lat_p)
    (- 1 + 1 / 10 ^ 7) (1 - 1 / 10 ^ 7)"
  have cb: "- 1 + 1 / 10 ^ 7 \<le> c \<and> c \<le> 1 - 1 / 10 ^ 7"
    unfolding c_def by (rule clamp_bounds) simp
  then have "- 1 < c" "c < 1" by simp_all
  then have lat: "- (pi / 2) < arcsin c \<and> arcsin c < pi / 2"
    by (rule arcsin_lt_bounded)
  have fst_eq: "fst (transform_to_latlon lat_prime lon_prime lat_p lon_p) = arcsin c"
    by (simp add: transform_to_latlon_def Let_def c_def)
  have "0 < 2 * pi" by simp
  then have lon: "0 \<le> snd (transform_to_latlon lat_prime lon_prime lat_p lon_p)
      \<and> snd (transform_to_latlon lat_prime lon_prime lat_p lon_p) < 2 * pi"
    by (simp add: transform_to_latlon_def Let_def remainder_range)
  show ?thesis using cb lat lon fst_eq unfolding c_def by simp
qed

section \<open>Properties of the grid mapping\<close>

lemma grid_map_x:
  "fst (grid_map lat_dep lon_dep min_lat max_lat min_lon max_lon) =
     spec_pole_shift (spec_lon_wrap (spec_linear_rescale lon_dep min_lon max_lon))
       (spec_linear_rescale lat_dep min_lat max_lat)"
  by (simp add: grid_map_def Let_def where_t_def spec_pole_shift_def spec_lon_wrap_def
      spec_linear_rescale_def)

lemma grid_map_y:
  "snd (grid_map lat_dep lon_dep min_lat max_lat min_lon max_lon) =
     spec_lat_mirror (spec_linear_rescale lat_dep min_lat max_lat)"
  by (simp add: grid_map_def Let_def where_t_def spec_lat_mirror_def spec_mirror_above_def
      spec_mirror_below_def spec_linear_rescale_def)

lemma spec_lon_wrap_range: "- 1 \<le> spec_lon_wrap gx \<and> spec_lon_wrap gx < 1"
  using remainder_range[of 2 "gx + 1"] by (simp add: spec_lon_wrap_def)

lemma spec_pole_shift_range:
  "- 1 \<le> gx \<Longrightarrow> gx < 1 \<Longrightarrow> - 1 \<le> spec_pole_shift gx gy \<and> spec_pole_shift gx gy \<le> 1"
  by (simp add: spec_pole_shift_def)

lemma spec_lat_mirror_range_iff:
  "(- 1 \<le> spec_lat_mirror g \<and> spec_lat_mirror g \<le> 1) \<longleftrightarrow> (- 5 \<le> g \<and> g \<le> 3)"
  by (auto simp add: spec_lat_mirror_def spec_mirror_above_def spec_mirror_below_def)


lemma spec_linear_rescale_bounds:
  assumes "lo < hi"
  shows "(- 5 \<le> spec_linear_rescale dep lo hi \<and> spec_linear_rescale dep lo hi \<le> 3)
     \<longleftrightarrow> (3 * lo - 2 * hi \<le> dep \<and> dep \<le> 2 * hi - lo)"
proof -
  define d where "d = hi - lo"
  define q where "q = 2 * (dep - lo) / d"
  have pos: "0 < d" using assms by (simp add: d_def)
  have a: "(- 4 \<le> q) \<longleftrightarrow> (- 4 * d \<le> 2 * (dep - lo))"
    unfolding q_def using pos_le_divide_eq[OF pos] by blast
  have b: "(q \<le> 4) \<longleftrightarrow> (2 * (dep - lo) \<le> 4 * d)"
    unfolding q_def using pos_divide_le_eq[OF pos] by blast
  have "spec_linear_rescale dep lo hi = q - 1"
    by (simp add: spec_linear_rescale_def q_def d_def)
  then have "(- 5 \<le> spec_linear_rescale dep lo hi \<and> spec_linear_rescale dep lo hi \<le> 3)
     \<longleftrightarrow> (- 4 \<le> q \<and> q \<le> 4)" by auto
  also have "\<dots> \<longleftrightarrow> (- 4 * d \<le> 2 * (dep - lo) \<and> 2 * (dep - lo) \<le> 4 * d)"
    using a b by simp
  also have "\<dots> \<longleftrightarrow> (3 * lo - 2 * hi \<le> dep \<and> dep \<le> 2 * hi - lo)"
    unfolding d_def by auto
  finally show ?thesis .
qed



text \<open>
  C2 (as amended).  For grid extrema with \<open>min_lat < max_lat\<close> and \<open>min_lon < max_lon\<close> the
  sampling coordinate \<open>grid_x\<close> always lies in \<open>[-1, 1]\<close>; \<open>grid_y\<close> lies in \<open>[-1, 1]\<close> exactly
  when the departure latitude satisfies \<open>3 min_lat - 2 max_lat \<le> lat_dep \<le> 2 max_lat - min_lat\<close>
  (the rescaled latitude lies in \<open>[-5, 3]\<close>).
\<close>

theorem grid_map_range:
  assumes "min_lat < max_lat" and "min_lon < max_lon"
  shows "- 1 \<le> fst (grid_map lat_dep lon_dep min_lat max_lat min_lon max_lon)
   \<and> fst (grid_map lat_dep lon_dep min_lat max_lat min_lon max_lon) \<le> 1
   \<and> ((- 1 \<le> snd (grid_map lat_dep lon_dep min_lat max_lat min_lon max_lon)
        \<and> snd (grid_map lat_dep lon_dep min_lat max_lat min_lon max_lon) \<le> 1)
       \<longleftrightarrow> (3 * min_lat - 2 * max_lat \<le> lat_dep \<and> lat_dep \<le> 2 * max_lat - min_lat))"
proof -
  have x: "- 1 \<le> fst (grid_map lat_dep lon_dep min_lat max_lat min_lon max_lon)
     \<and> fst (grid_map lat_dep lon_dep min_lat max_lat min_lon max_lon) \<le> 1"
    unfolding grid_map_x using spec_lon_wrap_range spec_pole_shift_range by blast
  have y: "(- 1 \<le> snd (grid_map lat_dep lon_dep min_lat max_lat min_lon max_lon)
        \<and> snd (grid_map lat_dep lon_dep min_lat max_lat min_lon max_lon) \<le> 1)
       \<longleftrightarrow> (3 * min_lat - 2 * max_lat \<le> lat_dep \<and> lat_dep \<le> 2 * max_lat - min_lat)"
    unfolding grid_map_y spec_lat_mirror_range_iff
    using assms(1) by (rule spec_linear_rescale_bounds)
  show ?thesis using x y by blast
qed

theorem grid_map_range_witness:
  "(- 1 :: real) < 1 \<and> (0 :: real) < 6
   \<and> - 1 \<le> fst (grid_map (3 / 2) (3 / 2) (- 1) 1 0 6)
   \<and> fst (grid_map (3 / 2) (3 / 2) (- 1) 1 0 6) \<le> 1
   \<and> - 1 \<le> snd (grid_map (3 / 2) (3 / 2) (- 1) 1 0 6)
   \<and> snd (grid_map (3 / 2) (3 / 2) (- 1) 1 0 6) \<le> 1"
proof -
  have h1: "(- 1 :: real) < 1" and h2: "(0 :: real) < 6" by simp_all
  show ?thesis using grid_map_range[OF h1 h2, of "3 / 2" "3 / 2"] by simp
qed

text \<open>
  On a grid with latitudes in \<open>[0, 1/4]\<close> the departure latitude \<open>1\<close> (less than \<open>\<pi>/2\<close>)
  rescales to \<open>7\<close> and is mirrored once, to \<open>-5\<close>.
\<close>

theorem grid_map_range_counterexample:
  "snd (grid_map 1 0 0 (1 / 4) 0 1) = - 5
   \<and> \<not> (- 1 \<le> snd (grid_map 1 0 0 (1 / 4) 0 1) \<and> snd (grid_map 1 0 0 (1 / 4) 0 1) \<le> 1)"
  by (simp add: grid_map_def Let_def where_t_def remainder_def)

section \<open>Zero displacement and longitude shifts in the coordinate transform\<close>

lemma remainder_add_period:
  assumes "b \<noteq> 0"
  shows "remainder (a + b) b = remainder a b"
proof -
  have "(a + b) / b = a / b + 1" using assms by (simp add: field_simps)
  then have "\<lfloor>(a + b) / b\<rfloor> = \<lfloor>a / b\<rfloor> + 1" by simp
  then show ?thesis by (simp add: remainder_def algebra_simps)
qed

lemma remainder_add_periods:
  assumes "b \<noteq> 0"
  shows "remainder (a + of_int k * b) b = remainder a b"
proof -
  have "(a + of_int k * b) / b = a / b + of_int k" using assms by (simp add: field_simps)
  then have "\<lfloor>(a + of_int k * b) / b\<rfloor> = \<lfloor>a / b\<rfloor> + k" by simp
  then show ?thesis by (simp add: remainder_def algebra_simps)
qed

lemma remainder_id:
  assumes "0 \<le> a" and "a < b"
  shows "remainder a b = a"
proof -
  have "0 \<le> a / b" "a / b < 1" using assms by simp_all
  then have "\<lfloor>a / b\<rfloor> = 0" by linarith
  then show ?thesis by (simp add: remainder_def)
qed

lemma atan2_zero_nonneg: "0 \<le> x \<Longrightarrow> atan2 0 x = 0"
  by (simp add: atan2_def)

lemma transform_zero_displacement:
  assumes "- (pi / 2) \<le> lat_p" and "lat_p \<le> pi / 2"
  shows "transform_to_latlon 0 0 lat_p lon_p =
     (arcsin (clamp (sin lat_p) (- 1 + 1 / 10 ^ 7) (1 - 1 / 10 ^ 7)), remainder (lon_p + 2 * pi) (2 * pi))"
proof -
  have "0 \<le> cos lat_p" using assms by (rule cos_ge_zero)
  then show ?thesis by (simp add: transform_to_latlon_def Let_def atan2_zero_nonneg)
qed

lemma clamp_id: "lo \<le> x \<Longrightarrow> x \<le> hi \<Longrightarrow> clamp x lo hi = x"
  by (simp add: clamp_def)

lemma transform_zero_displacement_id:
  assumes "- (pi / 2) \<le> lat_p" and "lat_p \<le> pi / 2"
    and "\<bar>sin lat_p\<bar> \<le> 1 - 1 / 10 ^ 7"
    and "0 \<le> lon_p" and "lon_p < 2 * pi"
  shows "transform_to_latlon 0 0 lat_p lon_p = (lat_p, lon_p)"
proof -
  have c: "clamp (sin lat_p) (- 1 + 1 / 10 ^ 7) (1 - 1 / 10 ^ 7) = sin lat_p"
    using assms(3) by (intro clamp_id) (simp_all add: abs_le_iff)
  have a: "arcsin (sin lat_p) = lat_p" using assms(1,2) by (rule arcsin_sin)
  have "remainder (lon_p + 2 * pi) (2 * pi) = remainder lon_p (2 * pi)"
    by (rule remainder_add_period) simp
  also have "\<dots> = lon_p" using assms(4,5) by (rule remainder_id)
  finally show ?thesis
    using transform_zero_displacement[OF assms(1,2), of lon_p] c a by simp
qed

lemma transform_lon_periodic:
  "transform_to_latlon lat_prime lon_prime lat_p (lon_p + 2 * pi) =
     transform_to_latlon lat_prime lon_prime lat_p lon_p"
proof -
  define a where "a = atan2 (cos lat_prime * sin lon_prime)
    (cos lat_prime * cos lon_prime * cos lat_p - sin lat_prime * sin lat_p)"
  have "lon_p + 2 * pi + a + 2 * pi = (lon_p + a + 2 * pi) + 2 * pi" by simp
  then have "remainder (lon_p + 2 * pi + a + 2 * pi) (2 * pi) =
      remainder (lon_p + a + 2 * pi) (2 * pi)"
    using remainder_add_period[of "2 * pi" "lon_p + a + 2 * pi"] by simp
  then show ?thesis unfolding transform_to_latlon_def Let_def a_def by (simp only:)
qed

lemma cos_pi8_bound: "cos (pi / 8) \<le> 19 / 20"
proof -
  define c where "c = cos (pi / 8)"
  have c0: "0 \<le> c" unfolding c_def by (rule cos_ge_zero) simp_all
  have "cos (2 * (pi / 8)) = 2 * c\<^sup>2 - 1" unfolding c_def by (rule cos_double_cos)
  moreover have "2 * (pi / 8) = pi / 4" by simp
  ultimately have e: "2 * c\<^sup>2 - 1 = sqrt 2 / 2" by (simp only: cos_45)
  have "sqrt 2 \<le> 8 / 5" by (rule real_le_lsqrt) (simp_all add: power2_eq_square)
  then have "2 * c\<^sup>2 - 1 \<le> 4 / 5" unfolding e by simp
  then have "c\<^sup>2 \<le> 9 / 10" by simp
  also have "(9 / 10 :: real) \<le> (19 / 20)\<^sup>2" by (simp add: power2_eq_square)
  finally have "c\<^sup>2 \<le> (19 / 20)\<^sup>2" .
  then show ?thesis unfolding c_def by (rule power2_le_imp_le) simp
qed

lemma sin_bound_3pi8:
  assumes "\<bar>x\<bar> \<le> 3 * pi / 8"
  shows "\<bar>sin x\<bar> \<le> 1 - 1 / 10 ^ 7"
proof -
  have "cos (pi / 2 - 3 * pi / 8) = sin (3 * pi / 8)"
    by (simp only: cos_diff cos_pi_half sin_pi_half mult_zero_left mult_1 add_0)
  moreover have "pi / 2 - 3 * pi / 8 = pi / 8" by simp
  ultimately have s: "sin (3 * pi / 8) = cos (pi / 8)" by (simp only:)
  have x: "- (3 * pi / 8) \<le> x" "x \<le> 3 * pi / 8" using assms by (simp_all add: abs_le_iff)
  have b1: "- (pi / 2) \<le> - (3 * pi / 8)" and b2: "3 * pi / 8 \<le> pi / 2" by simp_all
  have up: "sin x \<le> sin (3 * pi / 8)"
    using x b1 b2 by (intro sin_monotone_2pi_le) linarith+
  have "sin (- (3 * pi / 8)) \<le> sin x"
    using x b1 b2 by (intro sin_monotone_2pi_le) linarith+
  then have lo: "- sin (3 * pi / 8) \<le> sin x" by (simp only: sin_minus)
  have "(19 / 20 :: real) \<le> 1 - 1 / 10 ^ 7" by simp
  then show ?thesis using up lo s cos_pi8_bound by (simp only: abs_le_iff) linarith
qed

section \<open>Resampling a uniform field\<close>

lemma size_uniform: "0 < H \<Longrightarrow> size_H (uniform H W c) = H \<and> size_W (uniform H W c) = W"
  by (cases H) (simp_all add: size_H_def size_W_def uniform_def)

lemma clip_coordinates_range: "0 < n \<Longrightarrow> 0 \<le> clip_coordinates i n \<and> clip_coordinates i n < int n"
  by (simp add: clip_coordinates_def)

lemma get_value_bounded_uniform:
  assumes "0 < H" and "0 < W"
  shows "get_value_bounded (uniform H W c) x y = c"
proof -
  have s: "size_H (uniform H W c) = H" "size_W (uniform H W c) = W"
    using size_uniform[OF assms(1)] by simp_all
  have ry: "0 \<le> clip_coordinates y H" "clip_coordinates y H < int H"
    using clip_coordinates_range[OF assms(1)] by simp_all
  have rx: "0 \<le> clip_coordinates x W" "clip_coordinates x W < int W"
    using clip_coordinates_range[OF assms(2)] by simp_all
  have ny: "nat (clip_coordinates y H) < H" using ry by simp
  have nx: "nat (clip_coordinates x W) < W" using rx by simp
  have "uniform H W c ! nat (clip_coordinates y H) ! nat (clip_coordinates x W) = c"
    using ny nx by (simp add: uniform_def)
  then show ?thesis using ry rx by (simp add: get_value_bounded_def s Let_def)
qed

lemma cubic_coefficients_sum:
  "cubic_convolution2 (t + 1) A + cubic_convolution1 t A + cubic_convolution1 (1 - t) A
     + cubic_convolution2 (2 - t) A = 1"
  unfolding cubic_convolution1_def cubic_convolution2_def by (simp add: algebra_simps)

lemma cubic_interp1d_const: "cubic_interp1d c c c c t = c"
proof -
  define k where "k = cubic_convolution2 (t + 1) (- (3 / 4)) + cubic_convolution1 t (- (3 / 4))
        + cubic_convolution1 (1 - t) (- (3 / 4)) + cubic_convolution2 (2 - t) (- (3 / 4))"
  have k1: "k = 1" unfolding k_def by (rule cubic_coefficients_sum)
  have "cubic_interp1d c c c c t = c * k"
    unfolding cubic_interp1d_def Let_def k_def by (simp only: distrib_left)
  then show ?thesis by (simp add: k1)
qed

lemma grid_sample_bicubic_uniform:
  assumes "0 < H" and "0 < W"
  shows "grid_sample_bicubic (uniform H W c) x y = c"
  by (simp add: grid_sample_bicubic_def Let_def get_value_bounded_uniform[OF assms]
      cubic_interp1d_const)

lemma wrap_row_replicate: "0 < W \<Longrightarrow> wrap_row (replicate W c) = replicate (W + 2) c"
  by (simp add: wrap_row_def replicate_append_same)

lemma pole_row_replicate: "pole_row (replicate W c) = replicate W c"
proof -
  have r1: "rotate1 (replicate W c) = replicate W c"
    by (cases W) (simp_all add: replicate_append_same)
  have "rotate n (replicate W c) = replicate W c" for n
    by (induction n) (simp_all add: r1)
  then show ?thesis by (simp add: pole_row_def)
qed

lemma GeoCyclicPadding_uniform:
  assumes "0 < H" and "0 < W"
  shows "GeoCyclicPadding (uniform H W c) = uniform (H + 2) (W + 2) c"
proof -
  have h: "hd (replicate H (replicate W c)) = replicate W c"
    and l: "last (replicate H (replicate W c)) = replicate W c"
    using assms(1) by simp_all
  have "replicate W c # replicate H (replicate W c) @ [replicate W c] =
      replicate (H + 2) (replicate W c)"
    by (simp add: replicate_append_same)
  then show ?thesis
    using assms(2) by (simp add: GeoCyclicPadding_def uniform_def h l pole_row_replicate
        wrap_row_replicate del: replicate_Suc)
qed

lemma advect_cell_uniform:
  assumes "0 < H" and "0 < W"
  shows "advect_cell (uniform H W c) fh fw lat_p lon_p u v dt min_lat max_lat min_lon max_lon = c"
  by (simp add: advect_cell_def grid_sample_bicubic_uniform[OF assms] split: prod.splits)

section \<open>Degenerate grids\<close>

lemma grid_map_t_finite:
  assumes "min_lat \<noteq> max_lat" and "min_lon \<noteq> max_lon"
  shows "grid_map_t (Fin lat_dep) (Fin lon_dep) (Fin min_lat) (Fin max_lat) (Fin min_lon) (Fin max_lon) =
     (Fin (fst (grid_map lat_dep lon_dep min_lat max_lat min_lon max_lon)),
      Fin (snd (grid_map lat_dep lon_dep min_lat max_lat min_lon max_lon)))"
proof -
  define gx where "gx = 2 * (lon_dep - min_lon) / (max_lon - min_lon) - 1"
  define gy where "gy = 2 * (lat_dep - min_lat) / (max_lat - min_lat) - 1"
  define w where "w = remainder (gx + 1) 2 - 1"
  have rx: "t_sub (t_div (t_mul (Fin 2) (t_sub (Fin lon_dep) (Fin min_lon)))
      (t_sub (Fin max_lon) (Fin min_lon))) (Fin 1) = Fin gx"
    using assms(2) by (simp add: t_sub_def gx_def)
  have ry: "t_sub (t_div (t_mul (Fin 2) (t_sub (Fin lat_dep) (Fin min_lat)))
      (t_sub (Fin max_lat) (Fin min_lat))) (Fin 1) = Fin gy"
    using assms(1) by (simp add: t_sub_def gy_def)
  have rw: "t_sub (t_remainder (t_add (Fin gx) (Fin 1)) 2) (Fin 1) = Fin w"
    by (simp add: t_sub_def w_def)
  have lhs: "grid_map_t (Fin lat_dep) (Fin lon_dep) (Fin min_lat) (Fin max_lat) (Fin min_lon) (Fin max_lon)
     = (Fin (where_t (1 < \<bar>gy\<bar> \<and> 0 < w) (where_t (1 < \<bar>gy\<bar> \<and> w \<le> 0) (w + 1) w - 1)
               (where_t (1 < \<bar>gy\<bar> \<and> w \<le> 0) (w + 1) w)),
        Fin (where_t (1 < where_t (gy < - 1) (- (2 + gy)) gy) (2 - where_t (gy < - 1) (- (2 + gy)) gy)
               (where_t (gy < - 1) (- (2 + gy)) gy)))"
    unfolding grid_map_t_def Let_def rx ry rw
    by (auto simp add: where_t_def t_sub_def)
  have rhs: "grid_map lat_dep lon_dep min_lat max_lat min_lon max_lon
     = (where_t (1 < \<bar>gy\<bar> \<and> 0 < w) (where_t (1 < \<bar>gy\<bar> \<and> w \<le> 0) (w + 1) w - 1)
               (where_t (1 < \<bar>gy\<bar> \<and> w \<le> 0) (w + 1) w),
        where_t (1 < where_t (gy < - 1) (- (2 + gy)) gy) (2 - where_t (gy < - 1) (- (2 + gy)) gy)
               (where_t (gy < - 1) (- (2 + gy)) gy))"
    unfolding grid_map_def Let_def gx_def[symmetric] gy_def[symmetric] w_def[symmetric]
    by (simp only: gt_ex)
  show ?thesis unfolding lhs rhs by simp
qed

lemma t_div_zero_not_finite: "\<not> is_finite (t_div (Fin a) (Fin 0))"
  by simp

lemma rescale_t_degenerate:
  "t_sub (t_div (t_mul (Fin 2) (t_sub (Fin dep) (Fin m))) (t_sub (Fin m) (Fin m))) (Fin 1)
     \<in> {PInf, NInf, NaN}"
  by (simp add: t_sub_def)

lemma grid_map_t_degenerate_lon:
  "fst (grid_map_t (Fin lat_dep) (Fin lon_dep) min_lat max_lat (Fin m) (Fin m)) = NaN"
proof -
  define g where "g = t_sub (t_div (t_mul (Fin 2) (t_sub (Fin lon_dep) (Fin m))) (t_sub (Fin m) (Fin m))) (Fin 1)"
  have "g \<in> {PInf, NInf, NaN}" unfolding g_def by (rule rescale_t_degenerate)
  then have w: "t_sub (t_remainder (t_add g (Fin 1)) 2) (Fin 1) = NaN"
    by (auto simp add: t_sub_def)
  show ?thesis
    unfolding grid_map_t_def Let_def g_def[symmetric] w by (simp add: where_t_def)
qed

lemma grid_map_t_degenerate_lat:
  "snd (grid_map_t (Fin lat_dep) (Fin lon_dep) (Fin m) (Fin m) min_lon max_lon) \<in> {NInf, NaN}"
proof -
  define g where "g = t_sub (t_div (t_mul (Fin 2) (t_sub (Fin lat_dep) (Fin m))) (t_sub (Fin m) (Fin m))) (Fin 1)"
  have "g \<in> {PInf, NInf, NaN}" unfolding g_def by (rule rescale_t_degenerate)
  then have "where_t (t_less (Fin 1) (where_t (t_less g (Fin (- 1))) (t_neg (t_add (Fin 2) g)) g))
       (t_sub (Fin 2) (where_t (t_less g (Fin (- 1))) (t_neg (t_add (Fin 2) g)) g))
       (where_t (t_less g (Fin (- 1))) (t_neg (t_add (Fin 2) g)) g) \<in> {NInf, NaN}"
    by (auto simp add: where_t_def t_sub_def)
  then show ?thesis
    unfolding grid_map_t_def Let_def g_def[symmetric] by simp
qed

lemma pad_rescale_t_NaN: "pad_rescale_t NaN n m = NaN"
  by (simp add: pad_rescale_t_def)

lemma pad_rescale_t_NInf: "pad_rescale_t NInf n m \<in> {NInf, NaN}"
  by (simp add: pad_rescale_t_def)

lemma advect_coords_t_degenerate_lon:
  "fst (advect_coords_t fh fw ph pw lat_p lon_p u v dt min_lat max_lat m m) = NaN"
proof -
  obtain lat_dep lon_dep where t: "transform_to_latlon (- v * dt) (- u * dt) lat_p lon_p = (lat_dep, lon_dep)"
    by (cases "transform_to_latlon (- v * dt) (- u * dt) lat_p lon_p") blast
  obtain gx gy where g: "grid_map_t (Fin lat_dep) (Fin lon_dep) (Fin min_lat) (Fin max_lat) (Fin m) (Fin m) = (gx, gy)"
    by (cases "grid_map_t (Fin lat_dep) (Fin lon_dep) (Fin min_lat) (Fin max_lat) (Fin m) (Fin m)") blast
  have "gx = NaN" using grid_map_t_degenerate_lon[of lat_dep lon_dep "Fin min_lat" "Fin max_lat" m] g by simp
  then show ?thesis using t g by (simp add: advect_coords_t_def Let_def pad_rescale_t_NaN)
qed

lemma advect_coords_t_degenerate_lat:
  "snd (advect_coords_t fh fw ph pw lat_p lon_p u v dt m m min_lon max_lon) \<in> {NInf, NaN}"
proof -
  obtain lat_dep lon_dep where t: "transform_to_latlon (- v * dt) (- u * dt) lat_p lon_p = (lat_dep, lon_dep)"
    by (cases "transform_to_latlon (- v * dt) (- u * dt) lat_p lon_p") blast
  obtain gx gy where g: "grid_map_t (Fin lat_dep) (Fin lon_dep) (Fin m) (Fin m) (Fin min_lon) (Fin max_lon) = (gx, gy)"
    by (cases "grid_map_t (Fin lat_dep) (Fin lon_dep) (Fin m) (Fin m) (Fin min_lon) (Fin max_lon)") blast
  have "gy \<in> {NInf, NaN}"
    using grid_map_t_degenerate_lat[of lat_dep lon_dep m "Fin min_lon" "Fin max_lon"] g by simp
  then have "pad_rescale_t gy fh ph \<in> {NInf, NaN}"
    using pad_rescale_t_NInf pad_rescale_t_NaN by auto
  then show ?thesis using t g by (simp add: advect_coords_t_def Let_def)
qed

text \<open>
  C8 (as amended).  For grids with at least one element, lines 102--140 raise no error, also
  when the grid's extrema are equal: the call goes on with the sampling coordinates of every
  cell.  When \<open>max_lon = min_lon\<close> the division by zero makes every \<open>grid_x\<close> NaN; when
  \<open>max_lat = min_lat\<close> every \<open>grid_y\<close> is minus infinity or NaN.  These non-finite
  coordinates are what the sampler is handed.
\<close>

theorem degenerate_grid_not_raised:
  assumes "concat lat_grid \<noteq> []" and "concat lon_grid \<noteq> []"
  shows "\<exists>coords. sampling_grid_t features padded lat_grid lon_grid u v dt = Inr coords
     \<and> (grid_max lon_grid = grid_min lon_grid \<longrightarrow>
          (\<forall>i j. i < size_H features \<and> j < size_W features \<longrightarrow> fst (coords ! i ! j) = NaN))
     \<and> (grid_max lat_grid = grid_min lat_grid \<longrightarrow>
          (\<forall>i j. i < size_H features \<and> j < size_W features \<longrightarrow>
             snd (coords ! i ! j) \<in> {NInf, NaN}))"
proof -
  define coords where "coords = map (\<lambda>i. map (\<lambda>j.
      advect_coords_t (size_H features) (size_W features) (size_H padded) (size_W padded)
        (lat_grid ! i ! j) (lon_grid ! i ! j) (u ! i ! j) (v ! i ! j) dt
        (grid_min lat_grid) (grid_max lat_grid) (grid_min lon_grid) (grid_max lon_grid))
      [0..<size_W features]) [0..<size_H features]"
  have r: "sampling_grid_t features padded lat_grid lon_grid u v dt = Inr coords"
    using assms
    by (simp add: sampling_grid_t_def torch_min_def torch_max_def coords_def grid_min_def grid_max_def)
  have nth: "coords ! i ! j =
      advect_coords_t (size_H features) (size_W features) (size_H padded) (size_W padded)
        (lat_grid ! i ! j) (lon_grid ! i ! j) (u ! i ! j) (v ! i ! j) dt
        (grid_min lat_grid) (grid_max lat_grid) (grid_min lon_grid) (grid_max lon_grid)"
    if "i < size_H features" "j < size_W features" for i j
    using that by (simp add: coords_def)
  have x: "fst (coords ! i ! j) = NaN"
    if "grid_max lon_grid = grid_min lon_grid" "i < size_H features" "j < size_W features" for i j
    unfolding nth[OF that(2,3)] that(1) by (rule advect_coords_t_degenerate_lon)
  have y: "snd (coords ! i ! j) \<in> {NInf, NaN}"
    if "grid_max lat_grid = grid_min lat_grid" "i < size_H features" "j < size_W features" for i j
    unfolding nth[OF that(2,3)] that(1) by (rule advect_coords_t_degenerate_lat)
  show ?thesis using r x y by blast
qed

lemma sin_bound_pi4: "\<bar>sin (pi / 4)\<bar> \<le> 1 - 1 / 10 ^ 7" "\<bar>sin (- (pi / 4))\<bar> \<le> 1 - 1 / 10 ^ 7"
  by (rule sin_bound_3pi8, simp)+

text \<open>
  A grid of two latitudes and a single longitude column (\<open>min_lon = max_lon = 0\<close>), zero
  velocity: no error, \<open>grid_x\<close> is NaN in both cells.
\<close>

lemma single_column_coords:
  "sampling_grid_t [[1], [2]] (GeoCyclicPadding [[1], [2]]) [[- (pi / 4)], [pi / 4]] [[0], [0]]
      [[0], [0]] [[0], [0]] (1 / 100) =
     Inr [[(NaN, Fin (- (1 / 2)))], [(NaN, Fin (1 / 2))]]"
proof -
  have b: "- (pi / 2) \<le> - (pi / 4)" "- (pi / 4) \<le> pi / 2" "- (pi / 2) \<le> pi / 4" "pi / 4 \<le> pi / 2"
    "(0 :: real) \<le> 0" "0 < 2 * pi"
    using pi_gt_zero by linarith+
  have t: "transform_to_latlon 0 0 (- (pi / 4)) 0 = (- (pi / 4), 0)"
    "transform_to_latlon 0 0 (pi / 4) 0 = (pi / 4, 0)"
    using transform_zero_displacement_id[OF b(1) b(2) sin_bound_pi4(2) b(5) b(6)]
      transform_zero_displacement_id[OF b(3) b(4) sin_bound_pi4(1) b(5) b(6)]
    by blast+
  have m: "Min {- (pi / 4), pi / 4} = - (pi / 4)" "Max {- (pi / 4), pi / 4} = pi / 4"
    by simp_all
  have sz: "size_H [[1 :: real], [2]] = 2" "size_W [[1 :: real], [2]] = 1"
    "size_H (GeoCyclicPadding [[1], [2]]) = 4" "size_W (GeoCyclicPadding [[1], [2]]) = 3"
    by (simp_all add: size_H_def size_W_def GeoCyclicPadding_def wrap_row_def pole_row_def)
  have c0: "advect_coords_t 2 1 4 3 (- (pi / 4)) 0 0 0 (1 / 100) (- (pi / 4)) (pi / 4) 0 0 =
      (NaN, Fin (- (1 / 2)))"
    by (simp add: advect_coords_t_def t grid_map_t_def Let_def where_t_def t_sub_def pad_rescale_t_def)
  have c1: "advect_coords_t 2 1 4 3 (pi / 4) 0 0 0 (1 / 100) (- (pi / 4)) (pi / 4) 0 0 =
      (NaN, Fin (1 / 2))"
    by (simp add: advect_coords_t_def t grid_map_t_def Let_def where_t_def t_sub_def pad_rescale_t_def)
  show ?thesis
    unfolding sampling_grid_t_def sz
    using c0 c1 by (simp add: torch_min_def torch_max_def m upt_conv_Cons)
qed

theorem degenerate_grid_counterexample:
  "sampling_grid_t [[1], [2]] (GeoCyclicPadding [[1], [2]]) [[- (pi / 4)], [pi / 4]] [[0], [0]]
      [[0], [0]] [[0], [0]] (1 / 100) =
     Inr [[(NaN, Fin (- (1 / 2)))], [(NaN, Fin (1 / 2))]]
   \<and> grid_max [[0], [0]] = grid_min [[0], [0]]"
  using single_column_coords by (simp add: grid_min_def grid_max_def)

theorem degenerate_grid_not_raised_witness:
  "concat [[- (pi / 4)], [pi / 4]] \<noteq> [] \<and> concat [[0 :: real], [0]] \<noteq> []
   \<and> grid_max [[0], [0]] = grid_min [[0], [0]]
   \<and> (\<exists>coords. sampling_grid_t [[1], [2]] (GeoCyclicPadding [[1], [2]])
          [[- (pi / 4)], [pi / 4]] [[0], [0]] [[0], [0]] [[0], [0]] (1 / 100) = Inr coords
        \<and> fst (coords ! 1 ! 0) = NaN)"
proof -
  have h: "concat [[- (pi / 4)], [pi / 4]] \<noteq> []" "concat [[0 :: real], [0]] \<noteq> []" by simp_all
  have d: "grid_max [[0], [0]] = grid_min [[0], [0]]" by (simp add: grid_min_def grid_max_def)
  have s: "(1 :: nat) < size_H [[1 :: real], [2]]" "(0 :: nat) < size_W [[1 :: real], [2]]"
    by (simp_all add: size_H_def size_W_def)
  show ?thesis
    using h d s degenerate_grid_not_raised[OF h, of "[[1], [2]]" "GeoCyclicPadding [[1], [2]]"
        "[[0], [0]]" "[[0], [0]]" "1 / 100"]
    by blast
qed

section \<open>The advection step on concrete grids\<close>

lemma pad_rescale_t_Fin: "0 < m \<Longrightarrow> pad_rescale_t (Fin g) n m = Fin (pad_rescale g n m)"
  by (simp add: pad_rescale_t_def pad_rescale_def)

lemma advect_coords_t_finite:
  assumes "min_lat \<noteq> max_lat" and "min_lon \<noteq> max_lon" and "0 < ph" and "0 < pw"
  shows "advect_coords_t fh fw ph pw lat_p lon_p u v dt min_lat max_lat min_lon max_lon =
     (Fin (fst (advect_coords fh fw ph pw lat_p lon_p u v dt min_lat max_lat min_lon max_lon)),
      Fin (snd (advect_coords fh fw ph pw lat_p lon_p u v dt min_lat max_lat min_lon max_lon)))"
proof -
  obtain lat_dep lon_dep where t: "transform_to_latlon (- v * dt) (- u * dt) lat_p lon_p = (lat_dep, lon_dep)"
    by (cases "transform_to_latlon (- v * dt) (- u * dt) lat_p lon_p") blast
  obtain gx gy where g: "grid_map lat_dep lon_dep min_lat max_lat min_lon max_lon = (gx, gy)"
    by (cases "grid_map lat_dep lon_dep min_lat max_lat min_lon max_lon") blast
  have gt: "grid_map_t (Fin lat_dep) (Fin lon_dep) (Fin min_lat) (Fin max_lat) (Fin min_lon) (Fin max_lon) =
      (Fin gx, Fin gy)"
    using grid_map_t_finite[OF assms(1,2), of lat_dep lon_dep] g by simp
  have l: "advect_coords_t fh fw ph pw lat_p lon_p u v dt min_lat max_lat min_lon max_lon =
      (Fin (pad_rescale gx fw pw), Fin (pad_rescale gy fh ph))"
    using t gt by (simp add: advect_coords_t_def Let_def pad_rescale_t_Fin[OF assms(3)]
        pad_rescale_t_Fin[OF assms(4)])
  have r: "advect_coords fh fw ph pw lat_p lon_p u v dt min_lat max_lat min_lon max_lon =
      (pad_rescale gx fw pw, pad_rescale gy fh ph)"
    using t g by (simp add: advect_coords_def Let_def)
  show ?thesis unfolding l r by simp
qed

lemma sampling_grid_t_cells:
  assumes "concat lat_grid \<noteq> []" and "concat lon_grid \<noteq> []"
  shows "sampling_grid_t features padded lat_grid lon_grid u v dt =
     Inr (map (\<lambda>i. map (\<lambda>j.
            advect_coords_t (size_H features) (size_W features) (size_H padded) (size_W padded)
              (lat_grid ! i ! j) (lon_grid ! i ! j) (u ! i ! j) (v ! i ! j) dt
              (grid_min lat_grid) (grid_max lat_grid) (grid_min lon_grid) (grid_max lon_grid))
          [0..<size_W features])
       [0..<size_H features])"
  using assms
  by (simp add: sampling_grid_t_def torch_min_def torch_max_def grid_min_def grid_max_def)

lemma advect_channel_cell:
  assumes ne: "concat lat_grid \<noteq> []" "concat lon_grid \<noteq> []"
    and lat: "grid_min lat_grid \<noteq> grid_max lat_grid"
    and lon: "grid_min lon_grid \<noteq> grid_max lon_grid"
    and pad: "0 < size_H padded" "0 < size_W padded"
    and ij: "i < size_H features" "j < size_W features"
  shows "output_at (advect_channel features padded lat_grid lon_grid u v dt) i j =
     Some (advect_cell padded (size_H features) (size_W features)
             (lat_grid ! i ! j) (lon_grid ! i ! j) (u ! i ! j) (v ! i ! j) dt
             (grid_min lat_grid) (grid_max lat_grid) (grid_min lon_grid) (grid_max lon_grid))"
proof -
  define c where "c = advect_coords (size_H features) (size_W features) (size_H padded) (size_W padded)
      (lat_grid ! i ! j) (lon_grid ! i ! j) (u ! i ! j) (v ! i ! j) dt
      (grid_min lat_grid) (grid_max lat_grid) (grid_min lon_grid) (grid_max lon_grid)"
  have ct: "advect_coords_t (size_H features) (size_W features) (size_H padded) (size_W padded)
      (lat_grid ! i ! j) (lon_grid ! i ! j) (u ! i ! j) (v ! i ! j) dt
      (grid_min lat_grid) (grid_max lat_grid) (grid_min lon_grid) (grid_max lon_grid) =
      (Fin (fst c), Fin (snd c))"
    unfolding c_def using lat lon pad by (rule advect_coords_t_finite)
  have "output_at (advect_channel features padded lat_grid lon_grid u v dt) i j =
      sample_t padded (Fin (fst c), Fin (snd c))"
    using ij by (simp add: output_at_def advect_channel_def sampling_grid_t_cells[OF ne] ct)
  also have "\<dots> = Some (grid_sample_bicubic padded (fst c) (snd c))"
    by (simp add: sample_t_def)
  finally show ?thesis
    by (simp add: advect_cell_def c_def split: prod.splits)
qed

lemma padded_ramp_3x8:
  "GeoCyclicPadding ramp_3x8 =
    [[3, 4, 5, 6, 7, 0, 1, 2, 3, 4],
     [7, 0, 1, 2, 3, 4, 5, 6, 7, 0],
     [7, 0, 1, 2, 3, 4, 5, 6, 7, 0],
     [7, 0, 1, 2, 3, 4, 5, 6, 7, 0],
     [3, 4, 5, 6, 7, 0, 1, 2, 3, 4]]"
  by (simp add: GeoCyclicPadding_def ramp_3x8_def wrap_row_def pole_row_def rotate_drop_take)

lemma sample_ramp_a: "grid_sample_bicubic (GeoCyclicPadding ramp_3x8) (- 4 / 5) 0 = 2053 / 4000"
  unfolding padded_ramp_3x8
  by (simp add: grid_sample_bicubic_def size_H_def size_W_def grid_sampler_unnormalize_def
      get_value_bounded_def clip_coordinates_def cubic_interp1d_def cubic_convolution1_def
      cubic_convolution2_def Let_def)

lemma sample_ramp_b: "grid_sample_bicubic (GeoCyclicPadding ramp_3x8) (4 / 7) 0 = 2102 / 343"
  unfolding padded_ramp_3x8
  by (simp add: grid_sample_bicubic_def size_H_def size_W_def grid_sampler_unnormalize_def
      get_value_bounded_def clip_coordinates_def cubic_interp1d_def cubic_convolution1_def
      cubic_convolution2_def Let_def)

lemma grid_min_lat_3x8: "grid_min lat_3x8 = - (pi / 4)" and grid_max_lat_3x8: "grid_max lat_3x8 = pi / 4"
  by (simp_all add: grid_min_def grid_max_def lat_3x8_def eval_nat_numeral)

lemma grid_min_lon_3x8: "grid_min lon_3x8 = 0" and grid_max_lon_3x8: "grid_max lon_3x8 = 7 * pi / 4"
  by (simp_all add: grid_min_def grid_max_def lon_3x8_def lon_row_8_def)

lemma advect_coords_zero_velocity:
  assumes "- (pi / 2) \<le> lat_p" and "lat_p \<le> pi / 2"
    and "\<bar>sin lat_p\<bar> \<le> 1 - 1 / 10 ^ 7"
    and "0 \<le> lon_p" and "lon_p < 2 * pi"
  shows "advect_coords fh fw ph pw lat_p lon_p 0 0 dt min_lat max_lat min_lon max_lon =
     (pad_rescale (fst (grid_map lat_p lon_p min_lat max_lat min_lon max_lon)) fw pw,
      pad_rescale (snd (grid_map lat_p lon_p min_lat max_lat min_lon max_lon)) fh ph)"
  by (simp add: advect_coords_def transform_zero_displacement_id[OF assms] split: prod.splits)

lemma size_ramp_3x8: "size_H ramp_3x8 = 3" "size_W ramp_3x8 = 8"
  "size_H (GeoCyclicPadding ramp_3x8) = 5" "size_W (GeoCyclicPadding ramp_3x8) = 10"
  unfolding padded_ramp_3x8 by (simp_all add: size_H_def size_W_def ramp_3x8_def)

lemma grid_map_first_column: "grid_map 0 0 (- (pi / 4)) (pi / 4) 0 (7 * pi / 4) = (- 1, 0)"
  by (simp add: grid_map_def Let_def where_t_def remainder_def)

lemma grid_map_first_column_shifted:
  "grid_map 0 0 (- (pi / 4)) (pi / 4) (2 * pi) (15 * pi / 4) = (5 / 7, 0)"
proof -
  have "2 * (0 - 2 * pi) / (15 * pi / 4 - 2 * pi) - 1 = - 23 / 7"
    by (simp add: field_simps)
  moreover have "2 * (0 - - (pi / 4)) / (pi / 4 - - (pi / 4)) - 1 = 0"
    by (simp add: field_simps)
  ultimately show ?thesis
    unfolding grid_map_def by (simp add: Let_def where_t_def remainder_def)
qed

lemma sample_ramp_c: "grid_sample_bicubic (GeoCyclicPadding ramp_3x8) (- (4 / 7)) 0 = 299 / 343"
  unfolding padded_ramp_3x8
  by (simp add: grid_sample_bicubic_def size_H_def size_W_def grid_sampler_unnormalize_def
      get_value_bounded_def clip_coordinates_def cubic_interp1d_def cubic_convolution1_def
      cubic_convolution2_def Let_def)

lemma grid_map_second_column:
  "grid_map 0 (pi / 4) (- (pi / 4)) (pi / 4) 0 (7 * pi / 4) = (- (5 / 7), 0)"
proof -
  have "2 * (pi / 4 - 0) / (7 * pi / 4 - 0) - 1 = - (5 / 7)"
    by (simp add: field_simps)
  moreover have "2 * (0 - - (pi / 4)) / (pi / 4 - - (pi / 4)) - 1 = 0"
    by (simp add: field_simps)
  ultimately show ?thesis
    unfolding grid_map_def by (simp add: Let_def where_t_def remainder_def)
qed

lemma grids_3x8_proper:
  "concat lat_3x8 \<noteq> []" "concat lon_3x8 \<noteq> []" "concat (shift_lon lon_3x8) \<noteq> []"
  "grid_min lat_3x8 \<noteq> grid_max lat_3x8" "grid_min lon_3x8 \<noteq> grid_max lon_3x8"
  "0 < size_H (GeoCyclicPadding ramp_3x8)" "0 < size_W (GeoCyclicPadding ramp_3x8)"
proof -
  show "concat lat_3x8 \<noteq> []" "concat lon_3x8 \<noteq> []" "concat (shift_lon lon_3x8) \<noteq> []"
    by (simp_all add: lat_3x8_def lon_3x8_def lon_row_8_def shift_lon_def)
  show "grid_min lat_3x8 \<noteq> grid_max lat_3x8"
    unfolding grid_min_lat_3x8 grid_max_lat_3x8 using pi_gt_zero by linarith
  show "grid_min lon_3x8 \<noteq> grid_max lon_3x8"
    unfolding grid_min_lon_3x8 grid_max_lon_3x8 using pi_gt_zero by linarith
  show "0 < size_H (GeoCyclicPadding ramp_3x8)" "0 < size_W (GeoCyclicPadding ramp_3x8)"
    by (simp_all add: size_ramp_3x8)
qed

lemma zero_velocity_cells_3x8:
  "output_at (advect_channel ramp_3x8 (GeoCyclicPadding ramp_3x8) lat_3x8 lon_3x8
      (uniform 3 8 0) (uniform 3 8 0) (1 / 100)) 1 0 = Some (2053 / 4000)"
  "output_at (advect_channel ramp_3x8 (GeoCyclicPadding ramp_3x8) lat_3x8 lon_3x8
      (uniform 3 8 0) (uniform 3 8 0) (1 / 100)) 1 1 = Some (299 / 343)"
proof -
  have cell: "lat_3x8 ! 1 ! 0 = 0" "lon_3x8 ! 1 ! 0 = 0" "uniform 3 8 0 ! 1 ! 0 = 0"
    "lat_3x8 ! 1 ! 1 = 0" "lon_3x8 ! 1 ! 1 = pi / 4" "uniform 3 8 0 ! 1 ! 1 = 0"
    by (simp_all add: lat_3x8_def lon_3x8_def lon_row_8_def uniform_def)
  have idx: "(1 :: nat) < size_H ramp_3x8" "(0 :: nat) < size_W ramp_3x8" "(1 :: nat) < size_W ramp_3x8"
    by (simp_all add: size_ramp_3x8)
  have lonb: "(0 :: real) \<le> pi / 4" "pi / 4 < 2 * pi" using pi_gt_zero by linarith+
  have c0: "advect_coords 3 8 5 10 0 0 0 0 (1 / 100) (- (pi / 4)) (pi / 4) 0 (7 * pi / 4)
      = (- (4 / 5), 0)"
    using advect_coords_zero_velocity[of 0 0] by (simp add: grid_map_first_column pad_rescale_def)
  have c1: "advect_coords 3 8 5 10 0 (pi / 4) 0 0 (1 / 100) (- (pi / 4)) (pi / 4) 0 (7 * pi / 4)
      = (- (4 / 7), 0)"
    using advect_coords_zero_velocity[of 0 "pi / 4", OF _ _ _ lonb]
    by (simp add: grid_map_second_column pad_rescale_def)
  have a0: "advect_cell (GeoCyclicPadding ramp_3x8) 3 8 0 0 0 0 (1 / 100) (- (pi / 4)) (pi / 4) 0
      (7 * pi / 4) = 2053 / 4000"
    using sample_ramp_a by (simp add: advect_cell_def size_ramp_3x8 c0)
  have a1: "advect_cell (GeoCyclicPadding ramp_3x8) 3 8 0 (pi / 4) 0 0 (1 / 100) (- (pi / 4)) (pi / 4) 0
      (7 * pi / 4) = 299 / 343"
    using sample_ramp_c by (simp add: advect_cell_def size_ramp_3x8 c1)
  show "output_at (advect_channel ramp_3x8 (GeoCyclicPadding ramp_3x8) lat_3x8 lon_3x8
      (uniform 3 8 0) (uniform 3 8 0) (1 / 100)) 1 0 = Some (2053 / 4000)"
    unfolding advect_channel_cell[OF grids_3x8_proper(1,2,4,5,6,7) idx(1,2)]
    by (simp only: cell size_ramp_3x8 grid_min_lat_3x8 grid_max_lat_3x8 grid_min_lon_3x8
        grid_max_lon_3x8 a0)
  show "output_at (advect_channel ramp_3x8 (GeoCyclicPadding ramp_3x8) lat_3x8 lon_3x8
      (uniform 3 8 0) (uniform 3 8 0) (1 / 100)) 1 1 = Some (299 / 343)"
    unfolding advect_channel_cell[OF grids_3x8_proper(1,2,4,5,6,7) idx(1,3)]
    by (simp only: cell size_ramp_3x8 grid_min_lat_3x8 grid_max_lat_3x8 grid_min_lon_3x8
        grid_max_lon_3x8 a1)
qed

lemma pad_rescale_pixels:
  "grid_sampler_unnormalize (pad_rescale 1 W (W + 2)) (W + 2) = real W + 1 / (real W + 2)
   \<and> grid_sampler_unnormalize (pad_rescale (- 1) W (W + 2)) (W + 2) = 1 - 1 / (real W + 2)"
  by (simp add: grid_sampler_unnormalize_def pad_rescale_def field_simps)

lemma exact_rescale_pixels:
  "grid_sampler_unnormalize (1 * (real W - 1) / (real W + 1)) (W + 2) = real W
   \<and> grid_sampler_unnormalize (- 1 * (real W - 1) / (real W + 1)) (W + 2) = 1"
  by (simp add: grid_sampler_unnormalize_def field_simps)

text \<open>
  C1.  The resampler multiplies the coordinates by \<open>W/(W+2)\<close> and \<open>H/(H+2)\<close> (halo 1) before
  the corner-aligned sampler.  For the width 8 of the end-to-end grid, the rescaled extreme
  coordinate \<open>1 \<sqdot> 8/10\<close> is mapped by \<open>p = (x + 1) / 2 \<sqdot> (10 - 1)\<close> to the pixel coordinate
  \<open>81/10\<close>, and \<open>-1 \<sqdot> 8/10\<close> to \<open>9/10\<close>: neither is the centre of the last (index 8) or the
  first (index 1) unpadded cell.  In general they are \<open>W + 1/(W+2)\<close> and \<open>1 - 1/(W+2)\<close>
  (\<open>pad_rescale_pixels\<close>); the ratio \<open>(W-1)/(W+1)\<close> would land on \<open>W\<close> and \<open>1\<close>
  (\<open>exact_rescale_pixels\<close>).
\<close>

theorem pad_rescale_last_pixel:
  "grid_sampler_unnormalize (pad_rescale 1 8 10) 10 = 81 / 10
   \<and> grid_sampler_unnormalize (pad_rescale (- 1) 8 10) 10 = 9 / 10
   \<and> grid_sampler_unnormalize (pad_rescale 1 8 10) 10 \<noteq> 8
   \<and> grid_sampler_unnormalize (pad_rescale (- 1) 8 10) 10 \<noteq> 1"
  by (simp add: grid_sampler_unnormalize_def pad_rescale_def)

lemma set_concat_shift_lon: "set (concat (shift_lon g)) = (\<lambda>lon. lon + 2 * pi) ` set (concat g)"
  by (auto simp add: shift_lon_def)

lemma grid_extrema_shift:
  assumes "concat g \<noteq> []"
  shows "grid_min (shift_lon g) = grid_min g + 2 * pi"
    and "grid_max (shift_lon g) = grid_max g + 2 * pi"
proof -
  have fin: "finite (set (concat g))" and ne: "set (concat g) \<noteq> {}"
    using assms by simp_all
  have m: "mono (\<lambda>lon :: real. lon + 2 * pi)" by (rule monoI) simp
  show "grid_min (shift_lon g) = grid_min g + 2 * pi"
    unfolding grid_min_def set_concat_shift_lon
    using mono_Min_commute[OF m fin ne] by simp
  show "grid_max (shift_lon g) = grid_max g + 2 * pi"
    unfolding grid_max_def set_concat_shift_lon
    using mono_Max_commute[OF m fin ne] by simp
qed

lemma shift_lon_nth:
  assumes "i < length g" and "j < length (g ! i)"
  shows "shift_lon g ! i ! j = g ! i ! j + 2 * pi"
  using assms by (simp add: shift_lon_def)

lemma grid_extrema_shift_3x8:
  "grid_min (shift_lon lon_3x8) = 2 * pi" "grid_max (shift_lon lon_3x8) = 15 * pi / 4"
  using grid_extrema_shift[OF grids_3x8_proper(2)]
  by (simp_all add: grid_min_lon_3x8 grid_max_lon_3x8)

text \<open>
  The field "value = longitude index" on the three by eight grid, zero velocity, the cell in
  the middle row and the first longitude column: with the grid as it is the output is
  \<open>2053/4000\<close>; with every grid longitude shifted by \<open>2\<pi>\<close> the departure longitude is
  still 0 but it is rescaled against the shifted extrema, to \<open>grid_x = 5/7\<close>, and the output
  is \<open>2102/343\<close>.
\<close>

theorem longitude_shift_counterexample:
  "output_at (advect_channel ramp_3x8 (GeoCyclicPadding ramp_3x8) lat_3x8 lon_3x8
      (uniform 3 8 0) (uniform 3 8 0) (1 / 100)) 1 0 = Some (2053 / 4000)
   \<and> output_at (advect_channel ramp_3x8 (GeoCyclicPadding ramp_3x8) lat_3x8 (shift_lon lon_3x8)
      (uniform 3 8 0) (uniform 3 8 0) (1 / 100)) 1 0 = Some (2102 / 343)
   \<and> advect_channel ramp_3x8 (GeoCyclicPadding ramp_3x8) lat_3x8 (shift_lon lon_3x8)
      (uniform 3 8 0) (uniform 3 8 0) (1 / 100) \<noteq>
     advect_channel ramp_3x8 (GeoCyclicPadding ramp_3x8) lat_3x8 lon_3x8
      (uniform 3 8 0) (uniform 3 8 0) (1 / 100)"
proof -
  have cell: "lat_3x8 ! 1 ! 0 = 0" "shift_lon lon_3x8 ! 1 ! 0 = 2 * pi" "uniform 3 8 0 ! 1 ! 0 = 0"
    by (simp_all add: lat_3x8_def lon_3x8_def lon_row_8_def uniform_def shift_lon_def)
  have idx: "(1 :: nat) < size_H ramp_3x8" "(0 :: nat) < size_W ramp_3x8"
    by (simp_all add: size_ramp_3x8)
  have ne: "grid_min (shift_lon lon_3x8) \<noteq> grid_max (shift_lon lon_3x8)"
    unfolding grid_extrema_shift_3x8 using pi_gt_zero by linarith
  have t: "transform_to_latlon 0 0 0 (2 * pi) = (0, 0)"
    using transform_lon_periodic[of 0 0 0 0] transform_zero_displacement_id[of 0 0] by simp
  have c: "advect_coords 3 8 5 10 0 (2 * pi) 0 0 (1 / 100) (- (pi / 4)) (pi / 4)
      (2 * pi) (15 * pi / 4) = (4 / 7, 0)"
    unfolding advect_coords_def
    by (simp add: t grid_map_first_column_shifted pad_rescale_def)
  have a: "advect_cell (GeoCyclicPadding ramp_3x8) 3 8 0 (2 * pi) 0 0 (1 / 100) (- (pi / 4)) (pi / 4)
      (2 * pi) (15 * pi / 4) = 2102 / 343"
    using sample_ramp_b by (simp add: advect_cell_def size_ramp_3x8 c)
  have vb: "output_at (advect_channel ramp_3x8 (GeoCyclicPadding ramp_3x8) lat_3x8 (shift_lon lon_3x8)
      (uniform 3 8 0) (uniform 3 8 0) (1 / 100)) 1 0 = Some (2102 / 343)"
    unfolding advect_channel_cell[OF grids_3x8_proper(1,3,4) ne grids_3x8_proper(6,7) idx]
    by (simp only: cell size_ramp_3x8 grid_min_lat_3x8 grid_max_lat_3x8 grid_extrema_shift_3x8 a)
  note va = zero_velocity_cells_3x8(1)
  have "output_at (advect_channel ramp_3x8 (GeoCyclicPadding ramp_3x8) lat_3x8 (shift_lon lon_3x8)
      (uniform 3 8 0) (uniform 3 8 0) (1 / 100)) 1 0 \<noteq>
     output_at (advect_channel ramp_3x8 (GeoCyclicPadding ramp_3x8) lat_3x8 lon_3x8
      (uniform 3 8 0) (uniform 3 8 0) (1 / 100)) 1 0"
    unfolding va vb by simp
  then have "advect_channel ramp_3x8 (GeoCyclicPadding ramp_3x8) lat_3x8 (shift_lon lon_3x8)
      (uniform 3 8 0) (uniform 3 8 0) (1 / 100) \<noteq>
     advect_channel ramp_3x8 (GeoCyclicPadding ramp_3x8) lat_3x8 lon_3x8
      (uniform 3 8 0) (uniform 3 8 0) (1 / 100)"
    by auto
  then show ?thesis using va vb by blast
qed

lemma grid_map_rescale_grid_x:
  "fst (grid_map lat_dep lon_dep min_lat max_lat min_lon max_lon) =
     spec_pole_shift (spec_lon_wrap (rescale_grid_x lon_dep min_lon max_lon))
       (spec_linear_rescale lat_dep min_lat max_lat)"
  unfolding grid_map_x by (simp add: rescale_grid_x_def spec_linear_rescale_def)

lemma rescale_grid_x_shift:
  "rescale_grid_x lon_dep (min_lon + 2 * pi) (max_lon + 2 * pi) =
     rescale_grid_x lon_dep min_lon max_lon - 4 * pi / (max_lon - min_lon)"
proof -
  have d: "max_lon + 2 * pi - (min_lon + 2 * pi) = max_lon - min_lon" by simp
  have "2 * (lon_dep - (min_lon + 2 * pi)) = 2 * (lon_dep - min_lon) - 4 * pi" by simp
  then have "2 * (lon_dep - (min_lon + 2 * pi)) / (max_lon - min_lon) =
      2 * (lon_dep - min_lon) / (max_lon - min_lon) - 4 * pi / (max_lon - min_lon)"
    by (simp only: diff_divide_distrib)
  then show ?thesis unfolding rescale_grid_x_def d by simp
qed

text \<open>
  C3 (as amended).  Let every longitude of a non-empty grid with \<open>min_lon < max_lon\<close> be shifted
  by \<open>2\<pi>\<close>.  The departure point of every cell is unchanged (the transform adds the grid
  longitude and reduces modulo \<open>2\<pi>\<close>), both extrema of the longitude grid move by \<open>2\<pi>\<close>, and
  so the normalised longitude that line 113 computes for a departure longitude is lowered by
  \<open>4\<pi> / (max_lon - min_lon)\<close>, which is not zero.  The outputs are not identical in general.
\<close>

theorem longitude_shift_coordinates:
  assumes "concat lon_grid \<noteq> []" and "grid_min lon_grid < grid_max lon_grid"
  shows "transform_to_latlon lat_prime lon_prime lat_p (lon_p + 2 * pi) =
       transform_to_latlon lat_prime lon_prime lat_p lon_p
   \<and> grid_min (shift_lon lon_grid) = grid_min lon_grid + 2 * pi
   \<and> grid_max (shift_lon lon_grid) = grid_max lon_grid + 2 * pi
   \<and> rescale_grid_x lon_dep (grid_min (shift_lon lon_grid)) (grid_max (shift_lon lon_grid)) =
       rescale_grid_x lon_dep (grid_min lon_grid) (grid_max lon_grid)
         - 4 * pi / (grid_max lon_grid - grid_min lon_grid)
   \<and> 0 < 4 * pi / (grid_max lon_grid - grid_min lon_grid)"
proof -
  have p: "0 < 4 * pi / (grid_max lon_grid - grid_min lon_grid)"
    using assms(2) pi_gt_zero by simp
  show ?thesis
    unfolding grid_extrema_shift[OF assms(1)]
    using transform_lon_periodic rescale_grid_x_shift p by simp
qed

theorem longitude_shift_coordinates_witness:
  "concat lon_3x8 \<noteq> [] \<and> grid_min lon_3x8 < grid_max lon_3x8
   \<and> transform_to_latlon 0 0 0 (0 + 2 * pi) = transform_to_latlon 0 0 0 0
   \<and> grid_min (shift_lon lon_3x8) = 2 * pi \<and> grid_max (shift_lon lon_3x8) = 15 * pi / 4
   \<and> rescale_grid_x 0 (grid_min (shift_lon lon_3x8)) (grid_max (shift_lon lon_3x8)) =
       rescale_grid_x 0 (grid_min lon_3x8) (grid_max lon_3x8) - 16 / 7
   \<and> rescale_grid_x 0 (grid_min lon_3x8) (grid_max lon_3x8) = - 1"
proof -
  have h: "concat lon_3x8 \<noteq> []" "grid_min lon_3x8 < grid_max lon_3x8"
    using grids_3x8_proper(2) pi_gt_zero
    by (simp_all add: grid_min_lon_3x8 grid_max_lon_3x8)
  note t = longitude_shift_coordinates[OF h, of 0 0 0 0 0]
  have s: "4 * pi / (grid_max lon_3x8 - grid_min lon_3x8) = 16 / 7"
    by (simp add: grid_min_lon_3x8 grid_max_lon_3x8)
  have d: "transform_to_latlon 0 0 0 (0 + 2 * pi) = transform_to_latlon 0 0 0 0"
    using t by (rule conjunct1)
  have e: "rescale_grid_x 0 (grid_min (shift_lon lon_3x8)) (grid_max (shift_lon lon_3x8)) =
       rescale_grid_x 0 (grid_min lon_3x8) (grid_max lon_3x8) - 16 / 7"
    using t[THEN conjunct2, THEN conjunct2, THEN conjunct2, THEN conjunct1] unfolding s .
  have u: "rescale_grid_x 0 (grid_min lon_3x8) (grid_max lon_3x8) = - 1"
    by (simp add: rescale_grid_x_def grid_min_lon_3x8 grid_max_lon_3x8)
  show ?thesis using h d grid_extrema_shift_3x8 e u by blast
qed

lemma advect_channel_uniform:
  assumes ne: "concat lat_grid \<noteq> []" "concat lon_grid \<noteq> []"
    and lat: "grid_min lat_grid \<noteq> grid_max lat_grid"
    and lon: "grid_min lon_grid \<noteq> grid_max lon_grid"
    and hw: "0 < H" "0 < W"
  shows "advect_channel (uniform H W c) (GeoCyclicPadding (uniform H W c)) lat_grid lon_grid u v dt =
     Inr (replicate H (replicate W (Some c)))"
proof -
  have p: "GeoCyclicPadding (uniform H W c) = uniform (H + 2) (W + 2) c"
    using hw by (rule GeoCyclicPadding_uniform)
  have sf: "size_H (uniform H W c) = H" "size_W (uniform H W c) = W"
    using size_uniform[OF hw(1)] by simp_all
  have sp: "size_H (uniform (H + 2) (W + 2) c) = H + 2" "size_W (uniform (H + 2) (W + 2) c) = W + 2"
    using size_uniform[of "H + 2" "W + 2" c] by simp_all
  have s: "sample_t (uniform A B c)
      (advect_coords_t H W A B lat_p lon_p a b dt
         (grid_min lat_grid) (grid_max lat_grid) (grid_min lon_grid) (grid_max lon_grid)) = Some c"
    if "0 < A" and "0 < B" for lat_p lon_p a b A B
    using advect_coords_t_finite[OF lat lon that, of H W lat_p lon_p a b dt]
      grid_sample_bicubic_uniform[OF that, of c]
    by (simp add: sample_t_def)
  have m: "map (\<lambda>i. Some c) [0..<n] = replicate n (Some c)" for n :: nat
    by (simp add: map_replicate_const)
  have mm: "map (\<lambda>i. replicate W (Some c)) [0..<n] = replicate n (replicate W (Some c))" for n :: nat
    by (simp add: map_replicate_const)
  show ?thesis
    unfolding advect_channel_def p sampling_grid_t_cells[OF ne] sf sp
    by (simp add: s comp_def m mm)
qed

lemma uniform_scenario_4x8:
  "advect_channel (uniform 4 8 1) (GeoCyclicPadding (uniform 4 8 1)) lat_4x8 lon_4x8
      (uniform 4 8 0) (uniform 4 8 0) (1 / 100) = Inr (replicate 4 (replicate 8 (Some 1)))"
proof -
  have s: "set (concat lat_4x8) = {- (3 * pi / 8), - (pi / 8), pi / 8, 3 * pi / 8}"
    by (auto simp add: lat_4x8_def)
  have mn: "grid_min lat_4x8 = - (3 * pi / 8)"
    unfolding grid_min_def s using pi_gt_zero by (simp add: min_def)
  have mx: "grid_max lat_4x8 = 3 * pi / 8"
    unfolding grid_max_def s using pi_gt_zero by (simp add: max_def)
  have lon: "grid_min lon_4x8 = 0" "grid_max lon_4x8 = 7 * pi / 4"
    using grid_min_lon_3x8 grid_max_lon_3x8
    by (simp_all add: grid_min_def grid_max_def lon_4x8_def lon_3x8_def)
  have ne: "concat lat_4x8 \<noteq> []" "concat lon_4x8 \<noteq> []"
    by (simp_all add: lat_4x8_def lon_4x8_def lon_row_8_def)
  have d1: "grid_min lat_4x8 \<noteq> grid_max lat_4x8"
    unfolding mn mx using pi_gt_zero by linarith
  have d2: "grid_min lon_4x8 \<noteq> grid_max lon_4x8"
    unfolding lon using pi_gt_zero by linarith
  show ?thesis using ne d1 d2 by (rule advect_channel_uniform) simp_all
qed

text \<open>
  C5.  The field "value = longitude index" on the three by eight grid, advected with zero
  velocity and \<open>dt = 0.01\<close>, in the middle row: the cell of the first column holds 0 and
  receives \<open>2053/4000\<close>, the cell of the second column holds 1 and receives \<open>299/343\<close>.  Both
  departure points equal their arrival points, at the normalised longitudes \<open>-1\<close> and
  \<open>-5/7\<close>; the factor \<open>8/10\<close> of lines 139--140 moves them to the pixel coordinates \<open>9/10\<close> and
  \<open>27/14\<close> of the padded field, where the cells are centred at 1 and 2.
\<close>

theorem zero_velocity_not_identity:
  "output_at (advect_channel ramp_3x8 (GeoCyclicPadding ramp_3x8) lat_3x8 lon_3x8
      (uniform 3 8 0) (uniform 3 8 0) (1 / 100)) 1 0 = Some (2053 / 4000)
   \<and> ramp_3x8 ! 1 ! 0 = 0
   \<and> output_at (advect_channel ramp_3x8 (GeoCyclicPadding ramp_3x8) lat_3x8 lon_3x8
      (uniform 3 8 0) (uniform 3 8 0) (1 / 100)) 1 1 = Some (299 / 343)
   \<and> ramp_3x8 ! 1 ! 1 = 1"
proof -
  have "ramp_3x8 ! 1 ! 0 = 0" "ramp_3x8 ! 1 ! 1 = 1" by (simp_all add: ramp_3x8_def)
  then show ?thesis using zero_velocity_cells_3x8 by blast
qed

section \<open>The velocity split\<close>

lemma offset3_less:
  fixes c h w C H W :: nat
  assumes "c < C" and "h < H" and "w < W"
  shows "c * (H * W) + (h * W + w) < C * (H * W)"
proof -
  have "h * W + w < Suc h * W" using assms(3) by simp
  also have "\<dots> \<le> H * W" using assms(2) by (intro mult_le_mono1) simp
  finally have hw: "h * W + w < H * W" .
  then have "c * (H * W) + (h * W + w) < Suc c * (H * W)" by simp
  also have "\<dots> \<le> C * (H * W)" using assms(1) by (intro mult_le_mono1) simp
  finally show ?thesis .
qed

lemma select1_get:
  assumes sh: "shape t = [B, n, C, H, W]" and k: "k < n"
    and b: "b < B" and c: "c < C" and h: "h < H" and w: "w < W"
  shows "\<exists>s. select1 t k = Inr s \<and> shape s = [B, C, H, W]
     \<and> get s [b, c, h, w] =
         data t ! (b * (n * (C * (H * W))) + k * (C * (H * W)) + (c * (H * W) + (h * W + w)))"
proof -
  define inner where "inner = C * (H * W)"
  define r where "r = c * (H * W) + (h * W + w)"
  have r: "r < inner" unfolding r_def inner_def using c h w by (rule offset3_less)
  define f where "f = (\<lambda>p. data t ! ((p div inner) * (n * inner) + k * inner + p mod inner))"
  define s where "s = \<lparr>shape = [B, C, H, W], data = map f [0..<B * inner]\<rparr>"
  have sel: "select1 t k = Inr s"
    using k by (simp add: select1_def sh s_def f_def inner_def Let_def)
  have "b * inner + r < Suc b * inner" using r by simp
  also have "\<dots> \<le> B * inner" using b by (intro mult_le_mono1) simp
  finally have p: "b * inner + r < B * inner" .
  have dv: "(b * inner + r) div inner = b" and md: "(b * inner + r) mod inner = r"
    using r by simp_all
  have off: "offset [B, C, H, W] [b, c, h, w] = b * inner + r"
    by (simp add: inner_def r_def)
  have "get s [b, c, h, w] = map f [0..<B * inner] ! (b * inner + r)"
    by (simp only: get_def s_def tensor.simps off)
  also have "\<dots> = f (b * inner + r)" using p by simp
  also have "\<dots> = data t ! (b * (n * inner) + k * inner + r)"
    by (simp only: f_def dv md)
  finally have g: "get s [b, c, h, w] = data t ! (b * (n * inner) + k * inner + r)" .
  have shp: "shape s = [B, C, H, W]" by (simp add: s_def)
  show ?thesis using sel shp g unfolding inner_def r_def by blast
qed

lemma get4:
  "shape t = [B, n, H, W] \<Longrightarrow>
   get t [b, c, h, w] = data t ! (b * (n * (H * W)) + (c * (H * W) + (h * W + w)))"
  by (simp add: get_def)

text \<open>
  C7.  The advection step builds its velocity predictor with \<open>2 C\<close> output channels for
  features of \<open>C\<close> channels.  For a predicted velocity tensor of shape \<open>[B, 2 C, H, W]\<close> the
  split returns \<open>u\<close> and \<open>v\<close> of shape \<open>[B, C, H, W]\<close>: \<open>u\<close> is the first half of the
  channels (\<open>u[b,c,h,w] = velocities[b,c,h,w]\<close>) and \<open>v\<close> the second half
  (\<open>v[b,c,h,w] = velocities[b,C+c,h,w]\<close>), for every batch element, channel and position.  A
  tensor whose number of elements is not that of its shape makes the view raise.
\<close>

theorem split_uv_halves:
  assumes sh: "shape velocities = [B, out_channels (predictor_args (velocity_net self)), H, W]"
    and self: "self = NeuralSemiLagrangian_init C mesh var"
  shows "out_channels (predictor_args (velocity_net self)) = 2 * C
   \<and> (valid velocities \<longrightarrow>
        (\<exists>u v. split_uv self B velocities = Inr (u, v)
           \<and> shape u = [B, C, H, W] \<and> shape v = [B, C, H, W]
           \<and> (\<forall>b c h w. b < B \<and> c < C \<and> h < H \<and> w < W \<longrightarrow>
                 get u [b, c, h, w] = get velocities [b, c, h, w]
               \<and> get v [b, c, h, w] = get velocities [b, C + c, h, w])))
   \<and> (\<not> valid velocities \<longrightarrow> split_uv self B velocities = Inl RuntimeError)"
proof -
  have oc: "out_channels (predictor_args (velocity_net self)) = 2 * C"
    by (simp add: self NeuralSemiLagrangian_init_def)
  have hd: "hidden_dim self = C" by (simp add: self NeuralSemiLagrangian_init_def)
  have sh': "shape velocities = [B, 2 * C, H, W]" using sh oc by simp
  have tail: "drop (length (shape velocities) - 2) (shape velocities) = [H, W]"
    by (simp add: sh')
  have pl: "prod_list [B, 2, C, H, W] = prod_list (shape velocities)"
    by (simp add: sh')
  have bad: "split_uv self B velocities = Inl RuntimeError" if "\<not> valid velocities"
    using that pl by (simp add: split_uv_def view_def valid_def tail hd)
  have good: "\<exists>u v. split_uv self B velocities = Inr (u, v)
           \<and> shape u = [B, C, H, W] \<and> shape v = [B, C, H, W]
           \<and> (\<forall>b c h w. b < B \<and> c < C \<and> h < H \<and> w < W \<longrightarrow>
                 get u [b, c, h, w] = get velocities [b, c, h, w]
               \<and> get v [b, c, h, w] = get velocities [b, C + c, h, w])"
    if v: "valid velocities"
  proof -
    define t5 where "t5 = velocities\<lparr>shape := [B, 2, C, H, W]\<rparr>"
    have vw: "view velocities [B, 2, hidden_dim self, H, W] = Inr t5"
      using v pl by (simp add: view_def valid_def t5_def hd)
    have s5: "shape t5 = [B, 2, C, H, W]" and d5: "data t5 = data velocities"
      by (simp_all add: t5_def)
    show ?thesis
    proof (cases "B = 0 \<or> C = 0 \<or> H = 0 \<or> W = 0")
      case True
      have "\<exists>u. select1 t5 0 = Inr u \<and> shape u = [B, C, H, W]"
        by (simp add: select1_def s5 Let_def)
      then obtain u where u: "select1 t5 0 = Inr u" "shape u = [B, C, H, W]" by blast
      have "\<exists>v. select1 t5 1 = Inr v \<and> shape v = [B, C, H, W]"
        by (simp add: select1_def s5 Let_def)
      then obtain v where v: "select1 t5 1 = Inr v" "shape v = [B, C, H, W]" by blast
      have "split_uv self B velocities = Inr (u, v)"
        using u(1) v(1) by (simp add: split_uv_def tail vw)
      then show ?thesis using u(2) v(2) True by auto
    next
      case False
      then have pos: "0 < B" "0 < C" "0 < H" "0 < W" by simp_all
      obtain u where u: "select1 t5 0 = Inr u" "shape u = [B, C, H, W]"
        using select1_get[OF s5, of 0 0 0 0 0] pos by auto
      obtain v where v: "select1 t5 1 = Inr v" "shape v = [B, C, H, W]"
        using select1_get[OF s5, of 1 0 0 0 0] pos by auto
      have split: "split_uv self B velocities = Inr (u, v)"
        using u(1) v(1) by (simp add: split_uv_def tail vw)
      have elts: "get u [b, c, h, w] = get velocities [b, c, h, w]
               \<and> get v [b, c, h, w] = get velocities [b, C + c, h, w]"
        if "b < B" "c < C" "h < H" "w < W" for b c h w
      proof -
        have gu: "get u [b, c, h, w] =
            data velocities ! (b * (2 * (C * (H * W))) + 0 * (C * (H * W)) + (c * (H * W) + (h * W + w)))"
          using select1_get[OF s5, of 0 b c h w] that u(1) by (simp add: d5)
        have gv: "get v [b, c, h, w] =
            data velocities ! (b * (2 * (C * (H * W))) + 1 * (C * (H * W)) + (c * (H * W) + (h * W + w)))"
          using select1_get[OF s5, of 1 b c h w] that v(1) by (simp add: d5)
        have a: "get velocities [b, c, h, w] =
            data velocities ! (b * (2 * C * (H * W)) + (c * (H * W) + (h * W + w)))"
          using get4[OF sh'] .
        have b: "get velocities [b, C + c, h, w] =
            data velocities ! (b * (2 * C * (H * W)) + ((C + c) * (H * W) + (h * W + w)))"
          using get4[OF sh'] .
        have i1: "b * (2 * (C * (H * W))) + 0 * (C * (H * W)) + (c * (H * W) + (h * W + w)) =
            b * (2 * C * (H * W)) + (c * (H * W) + (h * W + w))"
          by (simp add: algebra_simps)
        have i2: "b * (2 * (C * (H * W))) + 1 * (C * (H * W)) + (c * (H * W) + (h * W + w)) =
            b * (2 * C * (H * W)) + ((C + c) * (H * W) + (h * W + w))"
          by (simp add: algebra_simps)
        show ?thesis unfolding gu gv a b i1 i2 by simp
      qed
      show ?thesis using split u(2) v(2) elts by blast
    qed
  qed
  show ?thesis using oc good bad by blast
qed

theorem split_uv_halves_witness:
  "shape \<lparr>shape = [1, 4, 1, 2], data = [1, 2, 3, 4, 5, 6, 7, 8]\<rparr> =
     [1, out_channels (predictor_args (velocity_net (NeuralSemiLagrangian_init 2 (1, 2) False))), 1, 2]
   \<and> valid \<lparr>shape = [1, 4, 1, 2], data = [1, 2, 3, 4, 5, 6, 7, 8]\<rparr>
   \<and> split_uv (NeuralSemiLagrangian_init 2 (1, 2) False) 1
         \<lparr>shape = [1, 4, 1, 2], data = [1, 2, 3, 4, 5, 6, 7, 8]\<rparr> =
       Inr (\<lparr>shape = [1, 2, 1, 2], data = [1, 2, 3, 4]\<rparr>,
            \<lparr>shape = [1, 2, 1, 2], data = [5, 6, 7, 8]\<rparr>)
   \<and> get \<lparr>shape = [1, 2, 1, 2], data = [5, 6, 7, 8]\<rparr> [0, 1, 0, 1] =
       get \<lparr>shape = [1, 4, 1, 2], data = [1, 2, 3, 4, 5, 6, 7, 8]\<rparr> [0, 2 + 1, 0, 1]
   \<and> \<not> valid \<lparr>shape = [1, 4, 1, 2], data = [1, 2, 3]\<rparr>
   \<and> split_uv (NeuralSemiLagrangian_init 2 (1, 2) False) 1
         \<lparr>shape = [1, 4, 1, 2], data = [1, 2, 3]\<rparr> = Inl RuntimeError"
proof -
  define vel where "vel = \<lparr>shape = [1, 4, 1, 2], data = [1, 2, 3, 4, 5, 6, 7, 8 :: real]\<rparr>"
  define bad where "bad = \<lparr>shape = [1, 4, 1, 2], data = [1, 2, 3 :: real]\<rparr>"
  define self where "self = NeuralSemiLagrangian_init 2 (1, 2) False"
  have sh: "shape vel = [1, out_channels (predictor_args (velocity_net self)), 1, 2]"
    "shape bad = [1, out_channels (predictor_args (velocity_net self)), 1, 2]"
    by (simp_all add: vel_def bad_def self_def NeuralSemiLagrangian_init_def)
  have v: "valid vel" "\<not> valid bad" by (simp_all add: vel_def bad_def valid_def)
  have e: "split_uv self 1 vel =
      Inr (\<lparr>shape = [1, 2, 1, 2], data = [1, 2, 3, 4]\<rparr>, \<lparr>shape = [1, 2, 1, 2], data = [5, 6, 7, 8]\<rparr>)"
    by (simp add: split_uv_def view_def select1_def vel_def self_def NeuralSemiLagrangian_init_def
        Let_def upt_conv_Cons)
  have g: "get \<lparr>shape = [1, 2, 1, 2], data = [5, 6, 7, 8]\<rparr> [0, 1, 0, 1] = get vel [0, 2 + 1, 0, 1]"
    using split_uv_halves[OF sh(1) self_def] v(1) e by (simp add: numeral_3_eq_3)
  have b: "split_uv self 1 bad = Inl RuntimeError"
    using split_uv_halves[OF sh(2) self_def] v(2) by blast
  show ?thesis using sh(1) v e g b unfolding vel_def bad_def self_def by blast
qed

section \<open>The outer forward pass\<close>

lemma bind_Inl_iff: "(\<exists>e. bind r f = Inl e) \<longleftrightarrow> (\<exists>e. r = Inl e) \<or> (\<exists>a. r = Inr a \<and> (\<exists>e. f a = Inl e))"
  by (cases r) (simp_all add: bind_def)

lemma forward_variational_is_pair:
  assumes "variational self"
    and "NeuralSemiLagrangian_forward env self z lat_grid lon_grid t = Inr r"
  shows "\<exists>interpolated kl_loss. r = PyTuple [PyTensor interpolated, PyTensor kl_loss]"
  using assms
  by (auto simp add: NeuralSemiLagrangian_forward_def bind_def split: sum.splits prod.splits)

lemma tuple_update_fails:
  "\<exists>e. bind (py_float_mul env a dz) (\<lambda>scaled.
          bind (py_add env (PyTuple vs) scaled) (\<lambda>update. py_iadd env z update)) = Inl e"
  by (cases dz) (simp_all add: bind_def)

lemma substep_variational_fails:
  assumes "variational (advection self)"
  shows "\<exists>e. Paradis_substep env self lat_grid lon_grid z = Inl e"
proof (cases "NeuralSemiLagrangian_forward env (advection self) z lat_grid lon_grid (model_dt self)")
  case (Inl e)
  then show ?thesis by (simp add: Paradis_substep_def bind_def)
next
  case (Inr z_adv)
  then obtain a k where pair: "z_adv = PyTuple [PyTensor a, PyTensor k]"
    using forward_variational_is_pair[OF assms] by blast
  show ?thesis
  proof (cases "diffusion_reaction env z_adv")
    case (Inl e)
    then show ?thesis using Inr by (simp add: Paradis_substep_def bind_def)
  next
    case dz: (Inr dz)
    have "Paradis_substep env self lat_grid lon_grid z =
        bind (py_float_mul env (model_dt self) dz) (\<lambda>scaled.
          bind (py_add env (PyTuple [PyTensor a, PyTensor k]) scaled) (\<lambda>update.
            py_iadd env z update))"
      using Inr dz pair by (simp add: Paradis_substep_def bind_def)
    then show ?thesis using tuple_update_fails by simp
  qed
qed

lemma substeps_variational_fail:
  assumes "variational (advection self)" and "0 < n"
  shows "\<exists>e. Paradis_substeps env self lat_grid lon_grid n z = Inl e"
proof -
  obtain m where n: "n = Suc m" using assms(2) by (cases n) simp_all
  obtain e where "Paradis_substep env self lat_grid lon_grid z = Inl e"
    using substep_variational_fails[OF assms(1)] by blast
  then show ?thesis by (simp add: n bind_def)
qed

lemma forward_variational_fails:
  assumes "variational (advection self)" and "0 < num_substeps self"
  shows "\<exists>e. Paradis_forward env self x = Inl e"
proof (cases "Paradis_grids self x")
  case (Inl e)
  then show ?thesis by (simp add: Paradis_forward_def bind_def)
next
  case (Inr g)
  obtain lat_grid lon_grid where g: "g = (lat_grid, lon_grid)" by (cases g) blast
  show ?thesis
  proof (cases "input_proj env x")
    case (Inl e)
    then show ?thesis using Inr g by (simp add: Paradis_forward_def bind_def)
  next
    case z: (Inr z)
    have "0 < nat (num_substeps self)" using assms(2) by simp
    then obtain e where "Paradis_substeps env self lat_grid lon_grid (nat (num_substeps self)) z = Inl e"
      using substeps_variational_fail[OF assms(1)] by blast
    then show ?thesis using Inr g z by (simp add: Paradis_forward_def bind_def)
  qed
qed

lemma Paradis_init_variational:
  assumes "Paradis_init cfg = Inr self"
  shows "variational (advection self) = ensemble_enable cfg"
    and "model_variational self = ensemble_enable cfg"
    and "num_substeps self = cfg_num_substeps cfg" and "num_substeps self \<noteq> 0"
  using assms
  by (auto simp add: Paradis_init_def Let_def NeuralSemiLagrangian_init_def split: if_splits)

text \<open>
  C9.  In the variational configuration the advection step returns a pair (the advected
  features and the auxiliary loss).  The outer forward pass hands this pair, as it is, to the
  diffusion-reaction layer and to the update \<open>z += z_adv + dt * dz\<close>, so every sub-step
  raises, whatever the diffusion-reaction layer does with the pair; with at least one
  sub-step the forward pass raises before it produces an output.
\<close>

theorem variational_forward_fails:
  assumes "Paradis_init cfg = Inr self" and "ensemble_enable cfg"
  shows "(\<forall>r. NeuralSemiLagrangian_forward env (advection self) z lat_grid lon_grid (model_dt self) = Inr r
           \<longrightarrow> (\<exists>interpolated kl_loss. r = PyTuple [PyTensor interpolated, PyTensor kl_loss]))
    \<and> (\<exists>e. Paradis_substep env self lat_grid lon_grid z = Inl e)
    \<and> (0 < num_substeps self \<longrightarrow> (\<exists>e. Paradis_forward env self x = Inl e))"
proof -
  have v: "variational (advection self)"
    using Paradis_init_variational(1)[OF assms(1)] assms(2) by simp
  show ?thesis
    using forward_variational_is_pair[OF v] substep_variational_fails[OF v]
      forward_variational_fails[OF v] by blast
qed

















text \<open>
  The example model on an input of three channels (one dynamic, then latitude and
  longitude): the plain configuration returns a tensor, the variational one raises.
\<close>

lemma example_init: "Paradis_init (example_cfg var) = Inr (example_model var)"
  by (simp add: Paradis_init_def example_cfg_def example_model_def Let_def SYNOPTIC_TIME_SCALE_def)

lemma example_grids:
  "Paradis_grids (example_model var) example_input =
     Inr (\<lparr>shape = [1, 1, 2], data = [10, 20]\<rparr>, \<lparr>shape = [1, 1, 2], data = [30, 40]\<rparr>)"
  by (simp add: Paradis_grids_def example_model_def example_input_def slice_from1_def narrow1_def
      select_channel_def select1_def bind_def Let_def upt_conv_Cons)

lemma example_forward_plain:
  "Paradis_forward example_env (example_model False) example_input =
     Inr \<lparr>shape = [1, 1, 1, 2], data = [5 / 2, 5]\<rparr>"
  unfolding Paradis_forward_def example_grids
  by (simp add: example_model_def example_input_def example_env_def bind_def
      Paradis_substep_def NeuralSemiLagrangian_forward_def NeuralSemiLagrangian_init_def
      same_shape_op_def slice_to1_def narrow1_def Let_def upt_conv_Cons)

lemma example_forward_variational:
  "Paradis_forward example_env (example_model True) example_input = Inl TypeError"
  unfolding Paradis_forward_def example_grids
  by (simp add: example_model_def example_input_def example_env_def bind_def
      Paradis_substep_def NeuralSemiLagrangian_forward_def NeuralSemiLagrangian_init_def)

theorem variational_forward_fails_witness:
  "Paradis_init (example_cfg True) = Inr (example_model True)
   \<and> ensemble_enable (example_cfg True)
   \<and> 0 < num_substeps (example_model True)
   \<and> Paradis_forward example_env (example_model True) example_input = Inl TypeError
   \<and> Paradis_forward example_env (example_model False) example_input =
       Inr \<lparr>shape = [1, 1, 1, 2], data = [5 / 2, 5]\<rparr>"
proof -
  have i: "Paradis_init (example_cfg True) = Inr (example_model True)" by (rule example_init)
  have e: "ensemble_enable (example_cfg True)" by (simp add: example_cfg_def)
  have n: "0 < num_substeps (example_model True)" by (simp add: example_model_def)
  have "\<exists>err. Paradis_forward example_env (example_model True) example_input = Inl err"
    using variational_forward_fails[OF i e, of example_env] n by blast
  then have f: "Paradis_forward example_env (example_model True) example_input = Inl TypeError"
    using example_forward_variational by simp
  show ?thesis using i e n f example_forward_plain by blast
qed


end
